theory Spec2Isabelle
  imports Complex_Main
begin

section \<open>Python values used by the notebook\<close>

text \<open>
  The notebook \<^verbatim>\<open>portfolio_optimization.ipynb\<close> is a Python script. Its own
  operations can raise the built-in exceptions below; an exception raised inside a
  call of the wrapped quantum-computing library is \<open>LibraryError\<close> with the
  library's message.
\<close>

datatype exc = IndexError | KeyError | LibraryError string

text \<open>
  \<^verbatim>\<open>"{0:b}".format(i)\<close>: the binary digits of an integer, most significant
  first, \<^verbatim>\<open>"0"\<close> for zero and a leading minus sign for a negative one.
\<close>

definition bit_char :: "nat \<Rightarrow> char" where
  "bit_char b = (if b = 0 then CHR ''0'' else CHR ''1'')"

fun bin_digits :: "nat \<Rightarrow> string" where
  "bin_digits n = (if n < 2 then [bit_char n] else bin_digits (n div 2) @ [bit_char (n mod 2)])"

declare bin_digits.simps [simp del]

definition format_b :: "int \<Rightarrow> string" where
  "format_b i = (if i < 0 then CHR ''-'' # bin_digits (nat (- i)) else bin_digits (nat i))"

text \<open>
  \<^verbatim>\<open>s.rjust(width)\<close> pads with spaces on the left up to \<open>width\<close> characters and
  returns \<open>s\<close> itself when it is already that long (also for a negative width).
\<close>

definition rjust :: "string \<Rightarrow> int \<Rightarrow> string" where
  "rjust s width = replicate (nat width - length s) CHR '' '' @ s"

text \<open>\<^verbatim>\<open>range(n)\<close> is empty for \<open>n \<le> 0\<close>.\<close>

definition py_range :: "int \<Rightarrow> int list" where
  "py_range n = map int [0..<nat n]"

text \<open>
  \<^verbatim>\<open>s[j]\<close>: a negative index counts from the end, an index outside the
  sequence raises \<^verbatim>\<open>IndexError\<close>.
\<close>

definition getitem :: "'a list \<Rightarrow> int \<Rightarrow> exc + 'a" where
  "getitem xs j =
     (let k = (if j < 0 then j + int (length xs) else j)
      in if k < 0 \<or> int (length xs) \<le> k then Inl IndexError else Inr (xs ! nat k))"

text \<open>A list comprehension whose element expression may raise stops at the first exception.\<close>

fun comprehension :: "('a \<Rightarrow> exc + 'b) \<Rightarrow> 'a list \<Rightarrow> exc + 'b list" where
  "comprehension f [] = Inr []"
| "comprehension f (a # as) =
     (case f a of
        Inl e \<Rightarrow> Inl e
      | Inr b \<Rightarrow> (case comprehension f as of Inl e \<Rightarrow> Inl e | Inr bs \<Rightarrow> Inr (b # bs)))"

section \<open>index_to_selection\<close>

text \<open>
  \<^verbatim>\<open>
  def index_to_selection(i, num_assets):
      s = "{0:b}".format(i).rjust(num_assets)
      x = np.array([1 if s[i]=='1' else 0 for i in reversed(range(num_assets))])
      return x
  \<close>
  The comprehension variable shadows the parameter \<open>i\<close>; it is \<open>j\<close> here.
\<close>

definition index_to_selection :: "int \<Rightarrow> int \<Rightarrow> exc + int list" where
  "index_to_selection i num_assets =
     (let s = rjust (format_b i) num_assets
      in comprehension
           (\<lambda>j. case getitem s j of
                  Inl e \<Rightarrow> Inl e
                | Inr c \<Rightarrow> Inr (if c = CHR ''1'' then 1 else 0))
           (rev (py_range num_assets)))"

text \<open>The value \<open>\<Sum>j. x[j] * 2^j\<close> of a selection read as a little-endian binary numeral.\<close>

definition selection_value :: "int list \<Rightarrow> int" where
  "selection_value x = (\<Sum>j<length x. x ! j * 2 ^ j)"

section \<open>Formatting\<close>

text \<open>\<^verbatim>\<open>str(n)\<close> and \<^verbatim>\<open>"%s" % n\<close> for an integer: its decimal digits.\<close>

definition dec_digit :: "nat \<Rightarrow> char" where
  "dec_digit d = ''0123456789'' ! d"

fun dec_digits :: "nat \<Rightarrow> string" where
  "dec_digits n = (if n < 10 then [dec_digit n] else dec_digits (n div 10) @ [dec_digit (n mod 10)])"

declare dec_digits.simps [simp del]

definition str_int :: "int \<Rightarrow> string" where
  "str_int i = (if i < 0 then CHR ''-'' # dec_digits (nat (- i)) else dec_digits (nat i))"

text \<open>
  \<^verbatim>\<open>"%.4f" % v\<close> and \<^verbatim>\<open>"{:.4f}".format(v)\<close>: the value is rounded to the nearest
  multiple of one ten-thousandth, a tie going to the even one, and written with a minus
  sign when it is negative (also when it rounds to zero), the integer part, a point
  and exactly four digits. A float is read as the real number it denotes; infinities
  and NaN are outside the model.
\<close>

definition round_half_even :: "real \<Rightarrow> int" where
  "round_half_even r =
     (let f = \<lfloor>r\<rfloor>; d = r - of_int f
      in if d < 1 / 2 then f else if 1 / 2 < d then f + 1 else if even f then f else f + 1)"

definition zfill :: "string \<Rightarrow> nat \<Rightarrow> string" where
  "zfill s width = replicate (width - length s) CHR ''0'' @ s"

definition format_4f :: "real \<Rightarrow> string" where
  "format_4f v =
     (let m = nat (round_half_even (\<bar>v\<bar> * 10 ^ 4))
      in (if v < 0 then [CHR ''-''] else []) @ dec_digits (m div 10 ^ 4) @ [CHR ''.'']
         @ zfill (dec_digits (m mod 10 ^ 4)) 4)"

text \<open>\<^verbatim>\<open>int(r)\<close> of a float truncates towards zero.\<close>

definition py_int :: "real \<Rightarrow> int" where
  "py_int r = (if 0 \<le> r then \<lfloor>r\<rfloor> else \<lceil>r\<rceil>)"

section \<open>The wrapped library\<close>

text \<open>
  Everything the notebook calls in Qiskit is outside the repository. The library is a
  parameter of the model: one field per function, method or constructor the notebook
  calls, returning the exception it raises or its result. Library objects that the
  notebook only passes on (data provider, operator, backend, optimizer, variational
  form, algorithm, quantum instance) are values of one opaque type \<open>'o\<close>. A method that
  changes its object in place (\<^verbatim>\<open>data.run()\<close>, \<^verbatim>\<open>cobyla.set_options(...)\<close>,
  \<^verbatim>\<open>vqe.random_seed = seed\<close>) returns the changed object. The answer to a call is a
  function of its arguments; the properties below hold for every such library.
  \<open>str_array\<close> is numpy's \<^verbatim>\<open>__str__\<close> of an array.
\<close>

type_synonym date = "nat \<times> nat \<times> nat"

type_synonym result = "string \<rightharpoonup> complex list list"

datatype ndarray = IntArray "int list" | FloatArray "real list"

record 'o library =
  load_account :: "exc + 'o"
  RandomDataProvider :: "string list \<Rightarrow> date \<Rightarrow> date \<Rightarrow> exc + 'o"
  data_run :: "'o \<Rightarrow> exc + 'o"
  get_period_return_mean_vector :: "'o \<Rightarrow> exc + real list"
  get_period_return_covariance_matrix :: "'o \<Rightarrow> exc + real list list"
  get_operator :: "real list \<Rightarrow> real list list \<Rightarrow> real \<Rightarrow> int \<Rightarrow> int \<Rightarrow> exc + 'o \<times> real"
  portfolio_value ::
    "ndarray \<Rightarrow> real list \<Rightarrow> real list list \<Rightarrow> real \<Rightarrow> int \<Rightarrow> int \<Rightarrow> exc + real"
  sample_most_likely :: "complex list \<Rightarrow> exc + real list"
  ExactEigensolver :: "'o \<Rightarrow> int \<Rightarrow> exc + 'o"
  algorithm_run :: "'o \<Rightarrow> 'o option \<Rightarrow> exc + result"
  get_backend :: "string \<Rightarrow> exc + 'o"
  COBYLA :: "exc + 'o"
  set_options :: "'o \<Rightarrow> int \<Rightarrow> exc + 'o"
  num_qubits :: "'o \<Rightarrow> exc + int"
  RY :: "int \<Rightarrow> int \<Rightarrow> string \<Rightarrow> exc + 'o"
  VQE :: "'o \<Rightarrow> 'o \<Rightarrow> 'o \<Rightarrow> exc + 'o"
  set_random_seed :: "'o \<Rightarrow> int \<Rightarrow> exc + 'o"
  QuantumInstance :: "'o \<Rightarrow> int \<Rightarrow> int \<Rightarrow> exc + 'o"
  QAOA :: "'o \<Rightarrow> 'o \<Rightarrow> int \<Rightarrow> exc + 'o"
  str_array :: "ndarray \<Rightarrow> string"

section \<open>Effects: the trace of library calls and prints\<close>

text \<open>
  What running the notebook does is recorded as a trace: one event for every library
  call, with its arguments, and one for every \<^verbatim>\<open>print\<close>, with the string printed.
\<close>

datatype 'o event =
    Ev_load_account
  | Ev_RandomDataProvider "string list" date date
  | Ev_data_run 'o
  | Ev_get_period_return_mean_vector 'o
  | Ev_get_period_return_covariance_matrix 'o
  | Ev_get_operator "real list" "real list list" real int int
  | Ev_portfolio_value ndarray "real list" "real list list" real int int
  | Ev_sample_most_likely "complex list"
  | Ev_ExactEigensolver 'o int
  | Ev_algorithm_run 'o "'o option"
  | Ev_get_backend string
  | Ev_COBYLA
  | Ev_set_options 'o int
  | Ev_num_qubits 'o
  | Ev_RY int int string
  | Ev_VQE 'o 'o 'o
  | Ev_set_random_seed 'o int
  | Ev_QuantumInstance 'o int int
  | Ev_QAOA 'o 'o int
  | Ev_print string

type_synonym ('o, 'a) prog = "'o event list \<Rightarrow> (exc + 'a) \<times> 'o event list"

definition return :: "'a \<Rightarrow> ('o, 'a) prog" where
  "return a tr = (Inr a, tr)"

text \<open>Sequencing: an exception ends the run where it is raised.\<close>

definition bind :: "('o, 'a) prog \<Rightarrow> ('a \<Rightarrow> ('o, 'b) prog) \<Rightarrow> ('o, 'b) prog" where
  "bind p f tr = (case p tr of (Inl e, tr') \<Rightarrow> (Inl e, tr') | (Inr a, tr') \<Rightarrow> f a tr')"

text \<open>An operation of the notebook's own (subscripting, \<open>index_to_selection\<close>): no event.\<close>

definition lift :: "exc + 'a \<Rightarrow> ('o, 'a) prog" where
  "lift r tr = (r, tr)"

definition call :: "'o event \<Rightarrow> exc + 'a \<Rightarrow> ('o, 'a) prog" where
  "call ev r tr = (r, tr @ [ev])"

definition print :: "string \<Rightarrow> ('o, unit) prog" where
  "print s tr = (Inr (), tr @ [Ev_print s])"

fun for_each :: "'a list \<Rightarrow> ('a \<Rightarrow> ('o, unit) prog) \<Rightarrow> ('o, unit) prog" where
  "for_each [] body = return ()"
| "for_each (a # as) body = bind (body a) (\<lambda>_. for_each as body)"

text \<open>The strings printed, in order, and the text they leave on standard output.\<close>

fun printed :: "'o event list \<Rightarrow> string list" where
  "printed [] = []"
| "printed (Ev_print s # tr) = s # printed tr"
| "printed (_ # tr) = printed tr"

definition stdout :: "'o event list \<Rightarrow> string" where
  "stdout tr = concat (map (\<lambda>s. s @ [CHR 0x0A]) (printed tr))"

text \<open>The exception, if any, that the library raises at a call.\<close>

definition exc_of :: "exc + 'a \<Rightarrow> exc option" where
  "exc_of r = (case r of Inl e \<Rightarrow> Some e | Inr _ \<Rightarrow> None)"

fun raised :: "'o library \<Rightarrow> 'o event \<Rightarrow> exc option" where
  "raised lib Ev_load_account = exc_of (load_account lib)"
| "raised lib (Ev_RandomDataProvider tickers start end) =
     exc_of (RandomDataProvider lib tickers start end)"
| "raised lib (Ev_data_run d) = exc_of (data_run lib d)"
| "raised lib (Ev_get_period_return_mean_vector d) = exc_of (get_period_return_mean_vector lib d)"
| "raised lib (Ev_get_period_return_covariance_matrix d) =
     exc_of (get_period_return_covariance_matrix lib d)"
| "raised lib (Ev_get_operator m sg r b p) = exc_of (get_operator lib m sg r b p)"
| "raised lib (Ev_portfolio_value x m sg r b p) = exc_of (portfolio_value lib x m sg r b p)"
| "raised lib (Ev_sample_most_likely v) = exc_of (sample_most_likely lib v)"
| "raised lib (Ev_ExactEigensolver operator k) = exc_of (ExactEigensolver lib operator k)"
| "raised lib (Ev_algorithm_run a qi) = exc_of (algorithm_run lib a qi)"
| "raised lib (Ev_get_backend name) = exc_of (get_backend lib name)"
| "raised lib Ev_COBYLA = exc_of (COBYLA lib)"
| "raised lib (Ev_set_options c maxiter) = exc_of (set_options lib c maxiter)"
| "raised lib (Ev_num_qubits operator) = exc_of (num_qubits lib operator)"
| "raised lib (Ev_RY n depth entanglement) = exc_of (RY lib n depth entanglement)"
| "raised lib (Ev_VQE operator var_form optimizer) = exc_of (VQE lib operator var_form optimizer)"
| "raised lib (Ev_set_random_seed a seed) = exc_of (set_random_seed lib a seed)"
| "raised lib (Ev_QuantumInstance backend s1 s2) = exc_of (QuantumInstance lib backend s1 s2)"
| "raised lib (Ev_QAOA operator optimizer p) = exc_of (QAOA lib operator optimizer p)"
| "raised lib (Ev_print s) = None"

text \<open>A library call in the notebook: the event is recorded, the library answers.\<close>

definition call_load_account :: "'o library \<Rightarrow> ('o, 'o) prog" where
  "call_load_account lib = call Ev_load_account (load_account lib)"

definition call_RandomDataProvider ::
  "'o library \<Rightarrow> string list \<Rightarrow> date \<Rightarrow> date \<Rightarrow> ('o, 'o) prog" where
  "call_RandomDataProvider lib tickers start end =
     call (Ev_RandomDataProvider tickers start end) (RandomDataProvider lib tickers start end)"

definition call_data_run :: "'o library \<Rightarrow> 'o \<Rightarrow> ('o, 'o) prog" where
  "call_data_run lib d = call (Ev_data_run d) (data_run lib d)"

definition call_get_period_return_mean_vector :: "'o library \<Rightarrow> 'o \<Rightarrow> ('o, real list) prog" where
  "call_get_period_return_mean_vector lib d =
     call (Ev_get_period_return_mean_vector d) (get_period_return_mean_vector lib d)"

definition call_get_period_return_covariance_matrix ::
  "'o library \<Rightarrow> 'o \<Rightarrow> ('o, real list list) prog" where
  "call_get_period_return_covariance_matrix lib d =
     call (Ev_get_period_return_covariance_matrix d) (get_period_return_covariance_matrix lib d)"

definition call_get_operator ::
  "'o library \<Rightarrow> real list \<Rightarrow> real list list \<Rightarrow> real \<Rightarrow> int \<Rightarrow> int \<Rightarrow> ('o, 'o \<times> real) prog" where
  "call_get_operator lib m sg r b p =
     call (Ev_get_operator m sg r b p) (get_operator lib m sg r b p)"

definition call_portfolio_value ::
  "'o library \<Rightarrow> ndarray \<Rightarrow> real list \<Rightarrow> real list list \<Rightarrow> real \<Rightarrow> int \<Rightarrow> int \<Rightarrow> ('o, real) prog" where
  "call_portfolio_value lib x m sg r b p =
     call (Ev_portfolio_value x m sg r b p) (portfolio_value lib x m sg r b p)"

definition call_sample_most_likely :: "'o library \<Rightarrow> complex list \<Rightarrow> ('o, real list) prog" where
  "call_sample_most_likely lib v = call (Ev_sample_most_likely v) (sample_most_likely lib v)"

definition call_ExactEigensolver :: "'o library \<Rightarrow> 'o \<Rightarrow> int \<Rightarrow> ('o, 'o) prog" where
  "call_ExactEigensolver lib operator k =
     call (Ev_ExactEigensolver operator k) (ExactEigensolver lib operator k)"

definition call_algorithm_run :: "'o library \<Rightarrow> 'o \<Rightarrow> 'o option \<Rightarrow> ('o, result) prog" where
  "call_algorithm_run lib a qi = call (Ev_algorithm_run a qi) (algorithm_run lib a qi)"

definition call_get_backend :: "'o library \<Rightarrow> string \<Rightarrow> ('o, 'o) prog" where
  "call_get_backend lib name = call (Ev_get_backend name) (get_backend lib name)"

definition call_COBYLA :: "'o library \<Rightarrow> ('o, 'o) prog" where
  "call_COBYLA lib = call Ev_COBYLA (COBYLA lib)"

definition call_set_options :: "'o library \<Rightarrow> 'o \<Rightarrow> int \<Rightarrow> ('o, 'o) prog" where
  "call_set_options lib c maxiter = call (Ev_set_options c maxiter) (set_options lib c maxiter)"

definition call_num_qubits :: "'o library \<Rightarrow> 'o \<Rightarrow> ('o, int) prog" where
  "call_num_qubits lib operator = call (Ev_num_qubits operator) (num_qubits lib operator)"

definition call_RY :: "'o library \<Rightarrow> int \<Rightarrow> int \<Rightarrow> string \<Rightarrow> ('o, 'o) prog" where
  "call_RY lib n depth entanglement =
     call (Ev_RY n depth entanglement) (RY lib n depth entanglement)"

definition call_VQE :: "'o library \<Rightarrow> 'o \<Rightarrow> 'o \<Rightarrow> 'o \<Rightarrow> ('o, 'o) prog" where
  "call_VQE lib operator var_form optimizer =
     call (Ev_VQE operator var_form optimizer) (VQE lib operator var_form optimizer)"

definition call_set_random_seed :: "'o library \<Rightarrow> 'o \<Rightarrow> int \<Rightarrow> ('o, 'o) prog" where
  "call_set_random_seed lib a seed = call (Ev_set_random_seed a seed) (set_random_seed lib a seed)"

definition call_QuantumInstance :: "'o library \<Rightarrow> 'o \<Rightarrow> int \<Rightarrow> int \<Rightarrow> ('o, 'o) prog" where
  "call_QuantumInstance lib backend s1 s2 =
     call (Ev_QuantumInstance backend s1 s2) (QuantumInstance lib backend s1 s2)"

definition call_QAOA :: "'o library \<Rightarrow> 'o \<Rightarrow> 'o \<Rightarrow> int \<Rightarrow> ('o, 'o) prog" where
  "call_QAOA lib operator optimizer p =
     call (Ev_QAOA operator optimizer p) (QAOA lib operator optimizer p)"

section \<open>print_result\<close>

text \<open>
  The global variables of the notebook that \<^verbatim>\<open>print_result\<close> reads. They are
  assigned once, in cells 3 and 4, before the first call.
\<close>

record globals =
  g_num_assets :: int
  g_mu :: "real list"
  g_sigma :: "real list list"
  g_q :: real
  g_budget :: int
  g_penalty :: int

text \<open>\<^verbatim>\<open>d[key]\<close> on a dictionary raises \<^verbatim>\<open>KeyError\<close> for a missing key.\<close>

definition dict_getitem :: "('k \<rightharpoonup> 'v) \<Rightarrow> 'k \<Rightarrow> exc + 'v" where
  "dict_getitem d k = (case d k of None \<Rightarrow> Inl KeyError | Some v \<Rightarrow> Inr v)"

text \<open>\<^verbatim>\<open>result['eigvecs'][0]\<close>\<close>

definition eigvecs_0 :: "result \<Rightarrow> exc + complex list" where
  "eigvecs_0 result =
     (case dict_getitem result ''eigvecs'' of Inl e \<Rightarrow> Inl e | Inr vs \<Rightarrow> getitem vs 0)"

text \<open>\<^verbatim>\<open>np.abs(v)**2\<close>, elementwise.\<close>

definition abs_squared :: "complex list \<Rightarrow> real list" where
  "abs_squared v = map (\<lambda>a. (cmod a)\<^sup>2) v"

text \<open>
  \<^verbatim>\<open>np.argsort(ps)\<close>: the indices of \<open>ps\<close> in ascending order of their entries.
  Equal entries keep the order of their indices here; numpy's default sort does not
  promise that, and no property below depends on it.
\<close>

definition argsort :: "real list \<Rightarrow> nat list" where
  "argsort ps = sort_key (\<lambda>i. ps ! i) [0..<length ps]"

definition tab :: char where
  "tab = CHR 0x09"

definition newline :: char where
  "newline = CHR 0x0A"

text \<open>\<^verbatim>\<open>'Optimal: selection {}, value {:.4f}'.format(selection, value)\<close>\<close>

definition format_optimal :: "'o library \<Rightarrow> real list \<Rightarrow> real \<Rightarrow> string" where
  "format_optimal lib selection v =
     ''Optimal: selection '' @ str_array lib (FloatArray selection) @ '', value '' @ format_4f v"

text \<open>\<^verbatim>\<open>'%10s\t%.4f\t\t%.4f' % (x, value, probability)\<close>\<close>

definition format_row :: "'o library \<Rightarrow> int list \<Rightarrow> real \<Rightarrow> real \<Rightarrow> string" where
  "format_row lib x v probability =
     rjust (str_array lib (IntArray x)) 10 @ [tab] @ format_4f v @ [tab, tab]
       @ format_4f probability"

definition full_result_line :: string where
  "full_result_line = newline # ''----------------- Full result ---------------------''"

definition header_line :: string where
  "header_line = ''selection'' @ [tab] @ ''value'' @ [tab, tab] @ ''probability''"

definition rule_line :: string where
  "rule_line = ''---------------------------------------------------''"

text \<open>
  \<^verbatim>\<open>
  def print_result(result):
      selection = sample_most_likely(result['eigvecs'][0])
      value = portfolio.portfolio_value(selection, mu, sigma, q, budget, penalty)
      print('Optimal: selection {}, value {:.4f}'.format(selection, value))

      probabilities = np.abs(result['eigvecs'][0])**2
      i_sorted = reversed(np.argsort(probabilities))
      print('\n----------------- Full result ---------------------')
      print('selection\tvalue\t\tprobability')
      print('---------------------------------------------------')
      for i in i_sorted:
          x = index_to_selection(i, num_assets)
          value = portfolio.portfolio_value(x, mu, sigma, q, budget, penalty)
          probability = probabilities[i]
          print('%10s\t%.4f\t\t%.4f' %(x, value, probability))
  \<close>
\<close>

definition print_row :: "'o library \<Rightarrow> globals \<Rightarrow> real list \<Rightarrow> nat \<Rightarrow> ('o, unit) prog" where
  "print_row lib g probabilities i =
     bind (lift (index_to_selection (int i) (g_num_assets g))) (\<lambda>x.
     bind (call_portfolio_value lib (IntArray x)
             (g_mu g) (g_sigma g) (g_q g) (g_budget g) (g_penalty g)) (\<lambda>v.
     bind (lift (getitem probabilities (int i))) (\<lambda>probability.
     print (format_row lib x v probability))))"

definition print_result :: "'o library \<Rightarrow> globals \<Rightarrow> result \<Rightarrow> ('o, unit) prog" where
  "print_result lib g result =
     bind (lift (eigvecs_0 result)) (\<lambda>v0.
     bind (call_sample_most_likely lib v0) (\<lambda>selection.
     bind (call_portfolio_value lib (FloatArray selection)
             (g_mu g) (g_sigma g) (g_q g) (g_budget g) (g_penalty g)) (\<lambda>v.
     bind (print (format_optimal lib selection v)) (\<lambda>_.
     bind (lift (eigvecs_0 result)) (\<lambda>v1.
     let probabilities = abs_squared v1;
         i_sorted = rev (argsort probabilities)
     in
     bind (print full_result_line) (\<lambda>_.
     bind (print header_line) (\<lambda>_.
     bind (print rule_line) (\<lambda>_.
     for_each i_sorted (print_row lib g probabilities)))))))))"

section \<open>The cells of the notebook\<close>

text \<open>
  Cell 1 only imports names and cell 9 is IPython magic: neither is modelled. The run
  below is the notebook executed from top to bottom; it ends at the first exception.
\<close>

text \<open>Cell 2: \<^verbatim>\<open>provider = IBMQ.load_account()\<close>\<close>

definition cell2 :: "'o library \<Rightarrow> ('o, 'o) prog" where
  "cell2 lib = call_load_account lib"

text \<open>
  Cell 3:
  \<^verbatim>\<open>
  num_assets = 4
  stocks = [("TICKER%s" % i) for i in range(num_assets)]
  data = RandomDataProvider(tickers=stocks,
                   start=datetime.datetime(2016,1,1),
                   end=datetime.datetime(2016,1,30))
  data.run()
  mu = data.get_period_return_mean_vector()
  sigma = data.get_period_return_covariance_matrix()
  \<close>
\<close>

definition cell3 :: "'o library \<Rightarrow> ('o, int \<times> real list \<times> real list list) prog" where
  "cell3 lib =
     (let num_assets = 4;
          stocks = map (\<lambda>i. ''TICKER'' @ str_int i) (py_range num_assets)
      in
      bind (call_RandomDataProvider lib stocks (2016, 1, 1) (2016, 1, 30)) (\<lambda>data0.
      bind (call_data_run lib data0) (\<lambda>data1.
      bind (call_get_period_return_mean_vector lib data1) (\<lambda>mu.
      bind (call_get_period_return_covariance_matrix lib data1) (\<lambda>sigma.
      return (num_assets, mu, sigma))))))"

text \<open>
  Cell 4:
  \<^verbatim>\<open>
  q = 0.5 # set risk factor
  budget = int(num_assets / 2) # set budget
  penalty = num_assets # set parameter to scale the budget penalty term

  qubitOp, offset = portfolio.get_operator(mu, sigma, q, budget, penalty)
  \<close>
\<close>

definition cell4 ::
  "'o library \<Rightarrow> int \<Rightarrow> real list \<Rightarrow> real list list \<Rightarrow> ('o, globals \<times> 'o \<times> real) prog" where
  "cell4 lib num_assets mu sigma =
     (let q = 1 / 2;
          budget = py_int (of_int num_assets / 2);
          penalty = num_assets
      in
      bind (call_get_operator lib mu sigma q budget penalty) (\<lambda>(qubitOp, offset).
      return (\<lparr>g_num_assets = num_assets, g_mu = mu, g_sigma = sigma, g_q = q,
                g_budget = budget, g_penalty = penalty\<rparr>, qubitOp, offset)))"

text \<open>
  Cell 6:
  \<^verbatim>\<open>
  exact_eigensolver = ExactEigensolver(qubitOp, k=1)
  result = exact_eigensolver.run()

  print_result(result)
  \<close>
\<close>

definition cell6 :: "'o library \<Rightarrow> globals \<Rightarrow> 'o \<Rightarrow> ('o, unit) prog" where
  "cell6 lib g qubitOp =
     bind (call_ExactEigensolver lib qubitOp 1) (\<lambda>exact_eigensolver.
     bind (call_algorithm_run lib exact_eigensolver None) (\<lambda>result.
     print_result lib g result))"

text \<open>
  Cell 7:
  \<^verbatim>\<open>
  backend = BasicAer.get_backend('statevector_simulator')
  seed = 50

  cobyla = COBYLA()
  cobyla.set_options(maxiter=500)
  ry = RY(qubitOp.num_qubits, depth=3, entanglement='full')
  vqe = VQE(qubitOp, ry, cobyla)
  vqe.random_seed = seed

  quantum_instance = QuantumInstance(backend=backend, seed_simulator=seed, seed_transpiler=seed)

  result = vqe.run(quantum_instance)

  print_result(result)
  \<close>
\<close>

definition cell7 :: "'o library \<Rightarrow> globals \<Rightarrow> 'o \<Rightarrow> ('o, unit) prog" where
  "cell7 lib g qubitOp =
     bind (call_get_backend lib ''statevector_simulator'') (\<lambda>backend.
     let seed = 50 in
     bind (call_COBYLA lib) (\<lambda>cobyla0.
     bind (call_set_options lib cobyla0 500) (\<lambda>cobyla.
     bind (call_num_qubits lib qubitOp) (\<lambda>n.
     bind (call_RY lib n 3 ''full'') (\<lambda>ry.
     bind (call_VQE lib qubitOp ry cobyla) (\<lambda>vqe0.
     bind (call_set_random_seed lib vqe0 seed) (\<lambda>vqe.
     bind (call_QuantumInstance lib backend seed seed) (\<lambda>quantum_instance.
     bind (call_algorithm_run lib vqe (Some quantum_instance)) (\<lambda>result.
     print_result lib g result)))))))))"

text \<open>
  Cell 8:
  \<^verbatim>\<open>
  backend = BasicAer.get_backend('statevector_simulator')
  seed = 50

  cobyla = COBYLA()
  cobyla.set_options(maxiter=250)
  qaoa = QAOA(qubitOp, cobyla, 3)

  qaoa.random_seed = seed

  quantum_instance = QuantumInstance(backend=backend, seed_simulator=seed, seed_transpiler=seed)

  result = qaoa.run(quantum_instance)

  print_result(result)
  \<close>
\<close>

definition cell8 :: "'o library \<Rightarrow> globals \<Rightarrow> 'o \<Rightarrow> ('o, unit) prog" where
  "cell8 lib g qubitOp =
     bind (call_get_backend lib ''statevector_simulator'') (\<lambda>backend.
     let seed = 50 in
     bind (call_COBYLA lib) (\<lambda>cobyla0.
     bind (call_set_options lib cobyla0 250) (\<lambda>cobyla.
     bind (call_QAOA lib qubitOp cobyla 3) (\<lambda>qaoa0.
     bind (call_set_random_seed lib qaoa0 seed) (\<lambda>qaoa.
     bind (call_QuantumInstance lib backend seed seed) (\<lambda>quantum_instance.
     bind (call_algorithm_run lib qaoa (Some quantum_instance)) (\<lambda>result.
     print_result lib g result)))))))"

definition notebook :: "'o library \<Rightarrow> ('o, unit) prog" where
  "notebook lib =
     bind (cell2 lib) (\<lambda>provider.
     bind (cell3 lib) (\<lambda>(num_assets, mu, sigma).
     bind (cell4 lib num_assets mu sigma) (\<lambda>(g, qubitOp, offset).
     bind (cell6 lib g qubitOp) (\<lambda>_.
     bind (cell7 lib g qubitOp) (\<lambda>_.
     cell8 lib g qubitOp)))))"

section \<open>Vocabulary of the properties\<close>

text \<open>
  The events of one row of the table when nothing raises: the call of
  \<^verbatim>\<open>portfolio_value\<close> on the row's selection, then the row printed.
\<close>

definition row_events ::
  "'o library \<Rightarrow> globals \<Rightarrow> (nat \<Rightarrow> int list) \<Rightarrow> (int list \<Rightarrow> real) \<Rightarrow> real list \<Rightarrow> nat
     \<Rightarrow> 'o event list" where
  "row_events lib g x_of pv probabilities i =
     [Ev_portfolio_value (IntArray (x_of i))
        (g_mu g) (g_sigma g) (g_q g) (g_budget g) (g_penalty g),
      Ev_print (format_row lib (x_of i) (pv (x_of i)) (probabilities ! i))]"




text \<open>The construction of an algorithm object of the library.\<close>

fun is_algorithm_class :: "'o event \<Rightarrow> bool" where
  "is_algorithm_class (Ev_ExactEigensolver operator k) = True"
| "is_algorithm_class (Ev_VQE operator var_form optimizer) = True"
| "is_algorithm_class (Ev_QAOA operator optimizer p) = True"
| "is_algorithm_class _ = False"

fun is_get_operator :: "'o event \<Rightarrow> bool" where
  "is_get_operator (Ev_get_operator m sg r b p) = True"
| "is_get_operator _ = False"

fun is_portfolio_value :: "'o event \<Rightarrow> bool" where
  "is_portfolio_value (Ev_portfolio_value x m sg r b p) = True"
| "is_portfolio_value _ = False"

text \<open>A call of the data provider: its construction or one of its methods.\<close>

fun is_data_provider :: "'o event \<Rightarrow> bool" where
  "is_data_provider (Ev_RandomDataProvider tickers start end) = True"
| "is_data_provider (Ev_data_run d) = True"
| "is_data_provider (Ev_get_period_return_mean_vector d) = True"
| "is_data_provider (Ev_get_period_return_covariance_matrix d) = True"
| "is_data_provider _ = False"

text \<open>
  The events \<^verbatim>\<open>print_result\<close> can produce under the globals \<open>g\<close>: a call of
  \<^verbatim>\<open>sample_most_likely\<close>, a call of \<^verbatim>\<open>portfolio_value\<close> with the five
  parameters of \<open>g\<close>, or a print.
\<close>

fun print_result_event :: "globals \<Rightarrow> 'o event \<Rightarrow> bool" where
  "print_result_event g (Ev_sample_most_likely v) = True"
| "print_result_event g (Ev_portfolio_value x m sg r b p) =
     (m = g_mu g \<and> sg = g_sigma g \<and> r = g_q g \<and> b = g_budget g \<and> p = g_penalty g)"
| "print_result_event g (Ev_print s) = True"
| "print_result_event g _ = False"

text \<open>The run of an algorithm object.\<close>

fun is_algorithm_run :: "'o event \<Rightarrow> bool" where
  "is_algorithm_run (Ev_algorithm_run a qi) = True"
| "is_algorithm_run _ = False"

text \<open>
  The calls of \<^verbatim>\<open>portfolio_value\<close> that \<^verbatim>\<open>print_result(result)\<close> makes under the
  globals \<open>g\<close>, in order: one on the selection that \<^verbatim>\<open>sample_most_likely\<close> returns for
  the state vector \<open>v\<close>, then one on the selection of every index of \<open>v\<close>, in the order
  of the table, each with the five parameters of \<open>g\<close>.
\<close>

definition evaluates_selections ::
  "'o library \<Rightarrow> globals \<Rightarrow> result \<Rightarrow> 'o event list \<Rightarrow> bool" where
  "evaluates_selections lib g result evs \<longleftrightarrow>
     (\<exists>v selection xs.
        eigvecs_0 result = Inr v \<and>
        sample_most_likely lib v = Inr selection \<and>
        map (\<lambda>i. index_to_selection (int i) (g_num_assets g)) (rev (argsort (abs_squared v)))
          = map Inr xs \<and>
        set (rev (argsort (abs_squared v))) = {0..<length v} \<and>
        length xs = length v \<and>
        evs = Ev_portfolio_value (FloatArray selection)
                (g_mu g) (g_sigma g) (g_q g) (g_budget g) (g_penalty g)
              # map (\<lambda>x. Ev_portfolio_value (IntArray x)
                       (g_mu g) (g_sigma g) (g_q g) (g_budget g) (g_penalty g)) xs)"

text \<open>A program all of whose new events satisfy \<open>P\<close>, however it ends.\<close>

definition emits :: "('o event \<Rightarrow> bool) \<Rightarrow> ('o, 'a) prog \<Rightarrow> bool" where
  "emits P p \<longleftrightarrow> (\<forall>tr r tr'. p tr = (r, tr') \<longrightarrow> (\<exists>new. tr' = tr @ new \<and> list_all P new))"

text \<open>
  Propagation: among the new events \<open>new\<close> of a run that ended with \<open>r\<close>, a library call
  that raised \<open>e\<close> is the last event, and \<open>e\<close> is the outcome of the run.
\<close>

definition propagates :: "'o library \<Rightarrow> exc + 'a \<Rightarrow> 'o event list \<Rightarrow> bool" where
  "propagates lib r new \<longleftrightarrow>
     (\<forall>k<length new. \<forall>e. raised lib (new ! k) = Some e \<longrightarrow> r = Inl e \<and> Suc k = length new)"

definition no_handler :: "'o library \<Rightarrow> ('o, 'a) prog \<Rightarrow> bool" where
  "no_handler lib p \<longleftrightarrow>
     (\<forall>tr r tr'. p tr = (r, tr') \<longrightarrow> (\<exists>new. tr' = tr @ new \<and> propagates lib r new))"

section \<open>A library to run the notebook on\<close>

text \<open>
  A stand-in for the wrapped library, used to run the model on concrete values: objects
  are numbers, every algorithm returns the basis state of index 12 on four qubits, and
  \<open>demo_portfolio_value\<close> is the mean-variance objective with the budget penalty.
  \<open>failing_library\<close> is the same library with a \<^verbatim>\<open>get_operator\<close> that raises.
\<close>

definition demo_vec :: "complex list" where
  "demo_vec = replicate 12 0 @ [1] @ replicate 3 0"

definition demo_result :: result where
  "demo_result = [''eigvecs'' \<mapsto> [demo_vec]]"

definition demo_portfolio_value ::
  "ndarray \<Rightarrow> real list \<Rightarrow> real list list \<Rightarrow> real \<Rightarrow> int \<Rightarrow> int \<Rightarrow> real" where
  "demo_portfolio_value x m sg r b p =
     (let xs = (case x of IntArray is \<Rightarrow> map of_int is | FloatArray fs \<Rightarrow> fs)
      in r * sum_list (map2 (\<lambda>row xi. xi * sum_list (map2 (*) row xs)) sg xs)
         - sum_list (map2 (*) m xs)
         + of_int p * (sum_list xs - of_int b)\<^sup>2)"

fun join :: "string \<Rightarrow> string list \<Rightarrow> string" where
  "join sep [] = []"
| "join sep [s] = s"
| "join sep (s # t # ss) = s @ sep @ join sep (t # ss)"

definition demo_str_array :: "ndarray \<Rightarrow> string" where
  "demo_str_array x =
     (case x of
        IntArray is \<Rightarrow> ''['' @ join '' '' (map str_int is) @ '']''
      | FloatArray fs \<Rightarrow> ''['' @ join '' '' (map (\<lambda>f. str_int (py_int f) @ ''.'') fs) @ '']'')"

definition demo_library :: "nat library" where
  "demo_library = \<lparr>
     load_account = Inr 0,
     RandomDataProvider = (\<lambda>tickers start end. Inr 1),
     data_run = (\<lambda>d. Inr (d + 1)),
     get_period_return_mean_vector = (\<lambda>d. Inr [1 / 100, 2 / 100, 3 / 100, 4 / 100]),
     get_period_return_covariance_matrix =
       (\<lambda>d. Inr [[1, 0, 0, 0], [0, 1, 0, 0], [0, 0, 1, 0], [0, 0, 0, 1]]),
     get_operator = (\<lambda>m sg r b p. Inr (3, 0)),
     portfolio_value = (\<lambda>x m sg r b p. Inr (demo_portfolio_value x m sg r b p)),
     sample_most_likely = (\<lambda>v. Inr [0, 0, 1, 1]),
     ExactEigensolver = (\<lambda>operator k. Inr 4),
     algorithm_run = (\<lambda>a qi. Inr demo_result),
     get_backend = (\<lambda>name. Inr 5),
     COBYLA = Inr 6,
     set_options = (\<lambda>c maxiter. Inr (c + 1)),
     num_qubits = (\<lambda>operator. Inr 4),
     RY = (\<lambda>n depth entanglement. Inr 8),
     VQE = (\<lambda>operator var_form optimizer. Inr 9),
     set_random_seed = (\<lambda>a seed. Inr (a + 1)),
     QuantumInstance = (\<lambda>backend s1 s2. Inr 11),
     QAOA = (\<lambda>operator optimizer p. Inr 12),
     str_array = demo_str_array
   \<rparr>"

definition failing_library :: "nat library" where
  "failing_library =
     demo_library\<lparr>get_operator := (\<lambda>m sg r b p. Inl (LibraryError ''no operator''))\<rparr>"


section \<open>Properties of index_to_selection\<close>

lemma comprehension_total:
  "(\<forall>a\<in>set as. f a = Inr (g a)) \<Longrightarrow> comprehension f as = Inr (map g as)"
  by (induction as) simp_all

lemma length_rjust: "length (rjust s w) = max (nat w) (length s)"
  by (simp add: rjust_def)

lemma getitem_in_range:
  "0 \<le> j \<Longrightarrow> nat j < length xs \<Longrightarrow> getitem xs j = Inr (xs ! nat j)"
  by (simp add: getitem_def Let_def)

lemma index_to_selection_eq:
  "index_to_selection i n =
     Inr (map (\<lambda>j. if rjust (format_b i) n ! nat j = CHR ''1'' then 1 else 0) (rev (py_range n)))"
  unfolding index_to_selection_def Let_def
  by (rule comprehension_total) (auto simp: py_range_def getitem_in_range length_rjust)

lemma length_bin_digits_pos: "0 < length (bin_digits m)"
  by (induction m rule: bin_digits.induct) (subst bin_digits.simps, simp)

lemma bin_digits_bound: "m < 2 ^ length (bin_digits m)"
proof (induction m rule: bin_digits.induct)
  case (1 n)
  show ?case
  proof (cases "n < 2")
    case True
    then show ?thesis by (subst bin_digits.simps) simp
  next
    case False
    with 1 have "n div 2 < 2 ^ length (bin_digits (n div 2))" by simp
    then have "n < 2 * 2 ^ length (bin_digits (n div 2))" by linarith
    with False show ?thesis by (subst bin_digits.simps) simp
  qed
qed

lemma length_bin_digits_le: "m < 2 ^ k \<Longrightarrow> 0 < k \<Longrightarrow> length (bin_digits m) \<le> k"
proof (induction m arbitrary: k rule: bin_digits.induct)
  case (1 n)
  show ?case
  proof (cases "n < 2")
    case True
    with 1(3) show ?thesis by (subst bin_digits.simps) simp
  next
    case False
    obtain k' where k: "k = Suc k'" using 1(3) by (cases k) auto
    from False 1(2) k have "0 < k'" by (cases k') auto
    moreover from 1(2) k have "n div 2 < 2 ^ k'" by simp
    ultimately have "length (bin_digits (n div 2)) \<le> k'" using 1(1) False by simp
    with False k show ?thesis by (subst bin_digits.simps) simp
  qed
qed

lemma bin_digits_nth:
  "j < length (bin_digits m) \<Longrightarrow>
   bin_digits m ! (length (bin_digits m) - 1 - j) = bit_char ((m div 2 ^ j) mod 2)"
proof (induction m arbitrary: j rule: bin_digits.induct)
  case (1 n)
  show ?case
  proof (cases "n < 2")
    case True
    then have b: "bin_digits n = [bit_char n]" by (subst bin_digits.simps) simp
    with 1(2) have "j = 0" by simp
    with b True show ?thesis by simp
  next
    case False
    then have b: "bin_digits n = bin_digits (n div 2) @ [bit_char (n mod 2)]"
      by (subst bin_digits.simps) simp
    show ?thesis
    proof (cases j)
      case 0
      then show ?thesis by (simp add: b nth_append)
    next
      case (Suc j')
      with 1(2) b have j': "j' < length (bin_digits (n div 2))" by simp
      from 1(1)[OF False j'] Suc j' show ?thesis
        by (simp add: b nth_append div_mult2_eq)
    qed
  qed
qed

lemma bits_sum: "(\<Sum>j<n. (m div 2 ^ j) mod 2 * 2 ^ j) = (m::nat) mod 2 ^ n"
proof (induction n)
  case 0
  then show ?case by simp
next
  case (Suc n)
  have "m mod (2 ^ n * 2) = 2 ^ n * (m div 2 ^ n mod 2) + m mod 2 ^ n"
    by (rule mod_mult2_eq)
  with Suc show ?case by (simp add: mult.commute)
qed

lemma bit_char_eq_1: "b < 2 \<Longrightarrow> (bit_char b = CHR ''1'') = (b = 1)"
  by (auto simp: bit_char_def)

lemma rjust_bit:
  assumes "m < 2 ^ k" "j < k"
  shows "(rjust (bin_digits m) (int k) ! (k - 1 - j) = CHR ''1'') = ((m div 2 ^ j) mod 2 = 1)"
proof -
  let ?L = "length (bin_digits m)"
  from assms have Lk: "?L \<le> k" by (intro length_bin_digits_le) auto
  show ?thesis
  proof (cases "j < ?L")
    case True
    with Lk assms(2) have "k - 1 - j - (k - ?L) = ?L - 1 - j" "\<not> k - 1 - j < k - ?L"
      by auto
    then have "rjust (bin_digits m) (int k) ! (k - 1 - j) = bin_digits m ! (?L - 1 - j)"
      by (simp add: rjust_def nth_append)
    also have "\<dots> = bit_char ((m div 2 ^ j) mod 2)" by (rule bin_digits_nth[OF True])
    finally show ?thesis by (simp add: bit_char_eq_1)
  next
    case False
    with Lk assms(2) have "k - 1 - j < k - ?L" using length_bin_digits_pos[of m] by auto
    then have "rjust (bin_digits m) (int k) ! (k - 1 - j) = CHR '' ''"
      by (simp add: rjust_def nth_append)
    moreover have "m < 2 ^ j"
    proof -
      have "m < 2 ^ ?L" by (rule bin_digits_bound)
      also from False have "(2::nat) ^ ?L \<le> 2 ^ j" by (intro power_increasing) auto
      finally show ?thesis .
    qed
    ultimately show ?thesis by simp
  qed
qed

lemma index_to_selection_length:
  "index_to_selection i n = Inr x \<Longrightarrow> length x = nat n"
  by (auto simp: index_to_selection_eq py_range_def)

lemma index_to_selection_entries:
  "index_to_selection i n = Inr x \<Longrightarrow> set x \<subseteq> {0, 1}"
  by (auto simp: index_to_selection_eq)

lemma index_to_selection_nth:
  assumes "0 \<le> i" "i < 2 ^ nat n" "index_to_selection i n = Inr x" "j < nat n"
  shows "x ! j = int ((nat i div 2 ^ j) mod 2)"
proof -
  from assms(1,2) have m: "nat i < 2 ^ nat n"
    by (metis nat_less_iff of_nat_numeral of_nat_power)
  from assms(4) have r: "rev (py_range n) ! j = int (nat n - 1 - j)"
    by (simp add: py_range_def rev_nth)
  from assms(4) have n: "n = int (nat n)" by simp
  let ?f = "\<lambda>j. if rjust (format_b i) n ! nat j = CHR ''1'' then 1 else (0::int)"
  from assms(3) have "x = map ?f (rev (py_range n))" by (simp add: index_to_selection_eq)
  moreover from assms(4) have "j < length (rev (py_range n))" by (simp add: py_range_def)
  ultimately have "x ! j = ?f (rev (py_range n) ! j)" by (simp only: nth_map)
  also have "\<dots> = (if rjust (format_b i) n ! (nat n - 1 - j) = CHR ''1'' then 1 else 0)"
    by (simp only: r nat_int)
  also have "rjust (format_b i) n = rjust (bin_digits (nat i)) (int (nat n))"
    using assms(1) n by (simp add: format_b_def)
  also have "(if rjust (bin_digits (nat i)) (int (nat n)) ! (nat n - 1 - j) = CHR ''1'' then 1 else 0)
      = int ((nat i div 2 ^ j) mod 2)"
    using rjust_bit[OF m assms(4)] by auto
  finally show ?thesis .
qed

lemma index_to_selection_value:
  assumes "0 \<le> i" "i < 2 ^ nat n" "index_to_selection i n = Inr x"
  shows "selection_value x = i"
proof -
  have len: "length x = nat n" by (rule index_to_selection_length[OF assms(3)])
  from assms(1,2) have m: "nat i < 2 ^ nat n"
    by (metis nat_less_iff of_nat_numeral of_nat_power)
  have "selection_value x = (\<Sum>j<nat n. int ((nat i div 2 ^ j) mod 2) * 2 ^ j)"
    unfolding selection_value_def len
    by (rule sum.cong) (simp_all add: index_to_selection_nth[OF assms])
  also have "\<dots> = int (\<Sum>j<nat n. (nat i div 2 ^ j) mod 2 * 2 ^ j)" by simp
  also have "\<dots> = int (nat i mod 2 ^ nat n)" by (simp only: bits_sum)
  also have "\<dots> = i" using m assms(1) by simp
  finally show ?thesis .
qed

text \<open>
  Claim C2: for \<open>num_assets \<ge> 1\<close> and \<open>0 \<le> i < 2 ^ num_assets\<close>,
  \<open>index_to_selection\<close> returns a vector of length \<open>num_assets\<close> with entries
  in \<open>{0, 1}\<close> whose little-endian binary value \<open>\<Sum>j. x[j] * 2^j\<close> is \<open>i\<close>.
\<close>

theorem index_to_selection_binary:
  assumes "1 \<le> n" "0 \<le> i" "i < 2 ^ nat n"
  shows "\<exists>x. index_to_selection i n = Inr x \<and> length x = nat n \<and> set x \<subseteq> {0, 1}
           \<and> selection_value x = i"
proof -
  obtain x where x: "index_to_selection i n = Inr x"
    by (simp add: index_to_selection_eq)
  from index_to_selection_length[OF x] index_to_selection_entries[OF x]
    index_to_selection_value[OF assms(2,3) x] x
  show ?thesis by blast
qed

theorem index_to_selection_binary_witness:
  "\<exists>x. index_to_selection 12 4 = Inr x \<and> length x = nat 4 \<and> set x \<subseteq> {0, 1}
       \<and> selection_value x = 12"
  using index_to_selection_binary[of 4 12] by simp

text \<open>
  Claim C10: for \<open>num_assets \<ge> 1\<close> and every nonnegative \<open>i\<close>, also beyond
  \<open>2 ^ num_assets\<close>, \<open>index_to_selection\<close> returns (no \<^verbatim>\<open>IndexError\<close>) a
  vector of length exactly \<open>num_assets\<close> whose entries are all in \<open>{0, 1}\<close>.
\<close>

theorem index_to_selection_total:
  assumes "1 \<le> n" "0 \<le> i"
  shows "\<exists>x. index_to_selection i n = Inr x \<and> length x = nat n \<and> set x \<subseteq> {0, 1}"
proof -
  obtain x where x: "index_to_selection i n = Inr x"
    by (simp add: index_to_selection_eq)
  with index_to_selection_length[OF x] index_to_selection_entries[OF x] show ?thesis
    by blast
qed

theorem index_to_selection_total_witness:
  "\<exists>x. index_to_selection 37 4 = Inr x \<and> length x = nat 4 \<and> set x \<subseteq> {0, 1}"
  using index_to_selection_total[of 4 37] by simp

section \<open>Running print_result\<close>

text \<open>The squared modulus without the square root, for evaluation.\<close>

lemma abs_squared_code [code]: "abs_squared v = map (\<lambda>a. (Re a)\<^sup>2 + (Im a)\<^sup>2) v"
  by (simp add: abs_squared_def cmod_power2)


lemma bind_Inr: "p tr = (Inr a, tr1) \<Longrightarrow> bind p f tr = f a tr1"
  by (simp add: bind_def)

lemma bind_Inl: "p tr = (Inl e, tr1) \<Longrightarrow> bind p f tr = (Inl e, tr1)"
  by (simp add: bind_def)

lemma bind_Inr_iff:
  "bind p f tr = (Inr b, tr') \<longleftrightarrow> (\<exists>a tr1. p tr = (Inr a, tr1) \<and> f a tr1 = (Inr b, tr'))"
  by (auto simp: bind_def split: prod.splits sum.splits)

lemma call_Inr_iff: "call ev r tr = (Inr a, tr') \<longleftrightarrow> r = Inr a \<and> tr' = tr @ [ev]"
  by (auto simp: call_def)

lemma lift_Inr_iff: "lift r tr = (Inr a, tr') \<longleftrightarrow> r = Inr a \<and> tr' = tr"
  by (auto simp: lift_def)

lemma print_Inr_iff: "print s tr = (Inr u, tr') \<longleftrightarrow> tr' = tr @ [Ev_print s]"
  by (auto simp: print_def)

lemma return_Inr_iff: "return a tr = (Inr b, tr') \<longleftrightarrow> b = a \<and> tr' = tr"
  by (auto simp: return_def)

lemma for_each_run:
  "(\<And>a tr. a \<in> set as \<Longrightarrow> body a tr = (Inr (), tr @ evs a)) \<Longrightarrow>
   for_each as body tr = (Inr (), tr @ concat (map evs as))"
proof (induction as arbitrary: tr)
  case Nil
  then show ?case by (simp add: return_def)
next
  case (Cons a as)
  have "body a tr = (Inr (), tr @ evs a)" by (rule Cons.prems) simp
  moreover have "for_each as body (tr @ evs a) = (Inr (), (tr @ evs a) @ concat (map evs as))"
    by (rule Cons.IH) (simp add: Cons.prems)
  ultimately show ?case by (simp add: bind_def)
qed

lemma set_argsort: "set (argsort ps) = {0..<length ps}"
  by (simp add: argsort_def)


lemma length_argsort: "length (argsort ps) = length ps"
  by (simp add: argsort_def)


lemma print_row_run:
  assumes "index_to_selection (int i) (g_num_assets g) = Inr x"
    and "portfolio_value lib (IntArray x) (g_mu g) (g_sigma g) (g_q g) (g_budget g) (g_penalty g) = Inr y"
    and "i < length probabilities"
  shows "print_row lib g probabilities i tr =
           (Inr (), tr @ [Ev_portfolio_value (IntArray x) (g_mu g) (g_sigma g) (g_q g) (g_budget g) (g_penalty g),
                          Ev_print (format_row lib x y (probabilities ! i))])"
  using assms
  by (simp add: print_row_def bind_def lift_def call_portfolio_value_def call_def print_def
      getitem_def)

lemma print_result_run:
  assumes v: "eigvecs_0 result = Inr v"
    and sel: "sample_most_likely lib v = Inr selection"
    and val: "portfolio_value lib (FloatArray selection) (g_mu g) (g_sigma g) (g_q g) (g_budget g) (g_penalty g) = Inr y"
    and x_of: "\<And>i. index_to_selection (int i) (g_num_assets g) = Inr (x_of i)"
    and pv: "\<And>i. i < length v \<Longrightarrow>
       portfolio_value lib (IntArray (x_of i)) (g_mu g) (g_sigma g) (g_q g) (g_budget g) (g_penalty g) = Inr (pv (x_of i))"
  shows "print_result lib g result tr =
     (Inr (), tr @ [Ev_sample_most_likely v,
        Ev_portfolio_value (FloatArray selection) (g_mu g) (g_sigma g) (g_q g) (g_budget g) (g_penalty g),
        Ev_print (format_optimal lib selection y), Ev_print full_result_line,
        Ev_print header_line, Ev_print rule_line]
       @ concat (map (row_events lib g x_of pv (abs_squared v)) (rev (argsort (abs_squared v)))))"
proof -
  let ?ps = "abs_squared v"
  have len: "length ?ps = length v" by (simp add: abs_squared_def)
  have loop: "for_each (rev (argsort ?ps)) (print_row lib g ?ps) tr1 =
      (Inr (), tr1 @ concat (map (row_events lib g x_of pv ?ps) (rev (argsort ?ps))))" for tr1
  proof (rule for_each_run)
    fix i tr2 assume "i \<in> set (rev (argsort ?ps))"
    then have i: "i < length v" by (simp add: set_argsort len)
    show "print_row lib g ?ps i tr2 = (Inr (), tr2 @ row_events lib g x_of pv ?ps i)"
      unfolding row_events_def using x_of pv[OF i] i by (intro print_row_run) (simp_all add: len)
  qed
  show ?thesis
    unfolding print_result_def Let_def
    by (simp add: bind_def lift_def v sel val call_sample_most_likely_def
        call_portfolio_value_def call_def print_def loop)
qed




section \<open>Four decimal places\<close>
















section \<open>The events of a run\<close>

lemma emitsI:
  "(\<And>tr r tr'. p tr = (r, tr') \<Longrightarrow> \<exists>new. tr' = tr @ new \<and> list_all P new) \<Longrightarrow> emits P p"
  by (simp add: emits_def)

lemma emitsD: "emits P p \<Longrightarrow> p tr = (r, tr') \<Longrightarrow> \<exists>new. tr' = tr @ new \<and> list_all P new"
  by (simp add: emits_def)

lemma emits_return: "emits P (return a)"
  by (simp add: emits_def return_def)

lemma emits_lift: "emits P (lift r)"
  by (simp add: emits_def lift_def)

lemma emits_call: "P ev \<Longrightarrow> emits P (call ev r)"
  by (simp add: emits_def call_def)

lemma emits_print: "P (Ev_print s) \<Longrightarrow> emits P (print s)"
  by (simp add: emits_def print_def)

lemma emits_bind:
  assumes "emits P p" and "\<And>a. emits P (f a)"
  shows "emits P (bind p f)"
proof (rule emitsI)
  fix tr r tr' assume run: "bind p f tr = (r, tr')"
  obtain r1 tr1 where p: "p tr = (r1, tr1)" by (cases "p tr")
  from emitsD[OF assms(1) p] obtain new1 where new1: "tr1 = tr @ new1" "list_all P new1"
    by blast
  show "\<exists>new. tr' = tr @ new \<and> list_all P new"
  proof (cases r1)
    case (Inl e)
    with run p have "tr' = tr1" by (simp add: bind_def)
    with new1 show ?thesis by blast
  next
    case (Inr a)
    with run p have "f a tr1 = (r, tr')" by (simp add: bind_def)
    from emitsD[OF assms(2) this] obtain new2 where "tr' = tr1 @ new2" "list_all P new2"
      by blast
    with new1 have "tr' = tr @ (new1 @ new2)" "list_all P (new1 @ new2)" by simp_all
    then show ?thesis by blast
  qed
qed

lemma emits_for_each: "(\<And>a. emits P (body a)) \<Longrightarrow> emits P (for_each as body)"
  by (induction as) (simp_all add: emits_return emits_bind)

lemma emits_print_row: "emits (print_result_event g) (print_row lib g probabilities i)"
  unfolding print_row_def call_portfolio_value_def
  by (intro emits_bind emits_lift emits_call emits_print) simp_all

lemma emits_print_result: "emits (print_result_event g) (print_result lib g result)"
  unfolding print_result_def Let_def call_portfolio_value_def call_sample_most_likely_def
  by (intro emits_bind emits_lift emits_call emits_print emits_for_each emits_print_row)
    simp_all

lemma print_result_events:
  assumes "print_result lib g result tr = (r, tr')"
  obtains new where "tr' = tr @ new" "list_all (print_result_event g) new"
  using emitsD[OF emits_print_result assms] by blast

lemma stocks_4:
  "map (\<lambda>i. ''TICKER'' @ str_int i) (py_range 4) = [''TICKER0'', ''TICKER1'', ''TICKER2'', ''TICKER3'']"
  by code_simp

lemma budget_4: "py_int (of_int 4 / 2) = 2"
  by (simp add: py_int_def)

lemma cell3_Inr:
  assumes "cell3 lib tr = (Inr (n, mu, sigma), tr')"
  obtains d0 d1 where "n = 4"
    and "RandomDataProvider lib [''TICKER0'', ''TICKER1'', ''TICKER2'', ''TICKER3'']
           (2016, 1, 1) (2016, 1, 30) = Inr d0"
    and "data_run lib d0 = Inr d1"
    and "get_period_return_mean_vector lib d1 = Inr mu"
    and "get_period_return_covariance_matrix lib d1 = Inr sigma"
    and "tr' = tr @ [Ev_RandomDataProvider [''TICKER0'', ''TICKER1'', ''TICKER2'', ''TICKER3'']
                       (2016, 1, 1) (2016, 1, 30),
                     Ev_data_run d0, Ev_get_period_return_mean_vector d1,
                     Ev_get_period_return_covariance_matrix d1]"
  using assms
  unfolding cell3_def Let_def stocks_4 call_RandomDataProvider_def call_data_run_def
    call_get_period_return_mean_vector_def call_get_period_return_covariance_matrix_def
  by (auto simp: bind_Inr_iff call_Inr_iff return_Inr_iff)

lemma cell4_Inr:
  assumes "cell4 lib n mu sigma tr = (Inr (g, qubitOp, offset), tr')"
  shows "g = \<lparr>g_num_assets = n, g_mu = mu, g_sigma = sigma, g_q = 1 / 2,
              g_budget = py_int (of_int n / 2), g_penalty = n\<rparr>
         \<and> get_operator lib mu sigma (1 / 2) (py_int (of_int n / 2)) n = Inr (qubitOp, offset)
         \<and> tr' = tr @ [Ev_get_operator mu sigma (1 / 2) (py_int (of_int n / 2)) n]"
  using assms unfolding cell4_def Let_def call_get_operator_def
  by (auto simp: bind_Inr_iff call_Inr_iff return_Inr_iff)

lemma cell6_Inr:
  assumes "cell6 lib g qubitOp tr = (Inr (), tr')"
  obtains ee res new where "ExactEigensolver lib qubitOp 1 = Inr ee"
    and "algorithm_run lib ee None = Inr res"
    and "tr' = tr @ [Ev_ExactEigensolver qubitOp 1, Ev_algorithm_run ee None] @ new"
    and "list_all (print_result_event g) new"
proof -
  from assms obtain ee res where ee: "ExactEigensolver lib qubitOp 1 = Inr ee"
    and res: "algorithm_run lib ee None = Inr res"
    and pr: "print_result lib g res (tr @ [Ev_ExactEigensolver qubitOp 1, Ev_algorithm_run ee None])
               = (Inr (), tr')"
    unfolding cell6_def call_ExactEigensolver_def call_algorithm_run_def
    by (auto simp: bind_Inr_iff call_Inr_iff)
  from pr obtain new where
    "tr' = (tr @ [Ev_ExactEigensolver qubitOp 1, Ev_algorithm_run ee None]) @ new"
    "list_all (print_result_event g) new"
    by (rule print_result_events)
  with ee res that show ?thesis by simp
qed

lemma cell7_Inr:
  assumes "cell7 lib g qubitOp tr = (Inr (), tr')"
  obtains backend c0 c1 n ry vqe0 vqe qi res new where
    "get_backend lib ''statevector_simulator'' = Inr backend"
    and "COBYLA lib = Inr c0"
    and "set_options lib c0 500 = Inr c1"
    and "num_qubits lib qubitOp = Inr n"
    and "RY lib n 3 ''full'' = Inr ry"
    and "VQE lib qubitOp ry c1 = Inr vqe0"
    and "set_random_seed lib vqe0 50 = Inr vqe"
    and "QuantumInstance lib backend 50 50 = Inr qi"
    and "algorithm_run lib vqe (Some qi) = Inr res"
    and "tr' = tr @ [Ev_get_backend ''statevector_simulator'', Ev_COBYLA, Ev_set_options c0 500,
                     Ev_num_qubits qubitOp, Ev_RY n 3 ''full'', Ev_VQE qubitOp ry c1,
                     Ev_set_random_seed vqe0 50, Ev_QuantumInstance backend 50 50,
                     Ev_algorithm_run vqe (Some qi)] @ new"
    and "list_all (print_result_event g) new"
proof -
  from assms obtain backend c0 c1 n ry vqe0 vqe qi res where lib:
    "get_backend lib ''statevector_simulator'' = Inr backend"
    "COBYLA lib = Inr c0"
    "set_options lib c0 500 = Inr c1"
    "num_qubits lib qubitOp = Inr n"
    "RY lib n 3 ''full'' = Inr ry"
    "VQE lib qubitOp ry c1 = Inr vqe0"
    "set_random_seed lib vqe0 50 = Inr vqe"
    "QuantumInstance lib backend 50 50 = Inr qi"
    "algorithm_run lib vqe (Some qi) = Inr res"
    and pr: "print_result lib g res
       (tr @ [Ev_get_backend ''statevector_simulator'', Ev_COBYLA, Ev_set_options c0 500,
              Ev_num_qubits qubitOp, Ev_RY n 3 ''full'', Ev_VQE qubitOp ry c1,
              Ev_set_random_seed vqe0 50, Ev_QuantumInstance backend 50 50,
              Ev_algorithm_run vqe (Some qi)]) = (Inr (), tr')"
    unfolding cell7_def Let_def call_get_backend_def call_COBYLA_def call_set_options_def
      call_num_qubits_def call_RY_def call_VQE_def call_set_random_seed_def
      call_QuantumInstance_def call_algorithm_run_def
    by (auto simp: bind_Inr_iff call_Inr_iff)
  from pr obtain new where
    "tr' = (tr @ [Ev_get_backend ''statevector_simulator'', Ev_COBYLA, Ev_set_options c0 500,
              Ev_num_qubits qubitOp, Ev_RY n 3 ''full'', Ev_VQE qubitOp ry c1,
              Ev_set_random_seed vqe0 50, Ev_QuantumInstance backend 50 50,
              Ev_algorithm_run vqe (Some qi)]) @ new"
    "list_all (print_result_event g) new"
    by (rule print_result_events)
  with lib that show ?thesis by simp
qed

lemma cell8_Inr:
  assumes "cell8 lib g qubitOp tr = (Inr (), tr')"
  obtains backend c0 c1 qaoa0 qaoa qi res new where
    "get_backend lib ''statevector_simulator'' = Inr backend"
    and "COBYLA lib = Inr c0"
    and "set_options lib c0 250 = Inr c1"
    and "QAOA lib qubitOp c1 3 = Inr qaoa0"
    and "set_random_seed lib qaoa0 50 = Inr qaoa"
    and "QuantumInstance lib backend 50 50 = Inr qi"
    and "algorithm_run lib qaoa (Some qi) = Inr res"
    and "tr' = tr @ [Ev_get_backend ''statevector_simulator'', Ev_COBYLA, Ev_set_options c0 250,
                     Ev_QAOA qubitOp c1 3, Ev_set_random_seed qaoa0 50,
                     Ev_QuantumInstance backend 50 50, Ev_algorithm_run qaoa (Some qi)] @ new"
    and "list_all (print_result_event g) new"
proof -
  from assms obtain backend c0 c1 qaoa0 qaoa qi res where lib:
    "get_backend lib ''statevector_simulator'' = Inr backend"
    "COBYLA lib = Inr c0"
    "set_options lib c0 250 = Inr c1"
    "QAOA lib qubitOp c1 3 = Inr qaoa0"
    "set_random_seed lib qaoa0 50 = Inr qaoa"
    "QuantumInstance lib backend 50 50 = Inr qi"
    "algorithm_run lib qaoa (Some qi) = Inr res"
    and pr: "print_result lib g res
       (tr @ [Ev_get_backend ''statevector_simulator'', Ev_COBYLA, Ev_set_options c0 250,
              Ev_QAOA qubitOp c1 3, Ev_set_random_seed qaoa0 50,
              Ev_QuantumInstance backend 50 50, Ev_algorithm_run qaoa (Some qi)]) = (Inr (), tr')"
    unfolding cell8_def Let_def call_get_backend_def call_COBYLA_def call_set_options_def
      call_QAOA_def call_set_random_seed_def call_QuantumInstance_def call_algorithm_run_def
    by (auto simp: bind_Inr_iff call_Inr_iff)
  from pr obtain new where
    "tr' = (tr @ [Ev_get_backend ''statevector_simulator'', Ev_COBYLA, Ev_set_options c0 250,
              Ev_QAOA qubitOp c1 3, Ev_set_random_seed qaoa0 50,
              Ev_QuantumInstance backend 50 50, Ev_algorithm_run qaoa (Some qi)]) @ new"
    "list_all (print_result_event g) new"
    by (rule print_result_events)
  with lib that show ?thesis by simp
qed

lemma notebook_Inr:
  assumes "notebook lib [] = (Inr (), tr)"
  obtains d0 d1 mu sigma qubitOp offset ee backend c0 c1 n ry vqe0 vqe qi c2 qaoa0 qaoa
    new1 new2 new3
  where "RandomDataProvider lib [''TICKER0'', ''TICKER1'', ''TICKER2'', ''TICKER3'']
           (2016, 1, 1) (2016, 1, 30) = Inr d0"
    and "data_run lib d0 = Inr d1"
    and "get_period_return_mean_vector lib d1 = Inr mu"
    and "get_period_return_covariance_matrix lib d1 = Inr sigma"
    and "get_operator lib mu sigma (1 / 2) 2 4 = Inr (qubitOp, offset)"
    and "tr = [Ev_load_account,
               Ev_RandomDataProvider [''TICKER0'', ''TICKER1'', ''TICKER2'', ''TICKER3'']
                 (2016, 1, 1) (2016, 1, 30),
               Ev_data_run d0, Ev_get_period_return_mean_vector d1,
               Ev_get_period_return_covariance_matrix d1,
               Ev_get_operator mu sigma (1 / 2) 2 4,
               Ev_ExactEigensolver qubitOp 1, Ev_algorithm_run ee None] @ new1
            @ [Ev_get_backend ''statevector_simulator'', Ev_COBYLA, Ev_set_options c0 500,
               Ev_num_qubits qubitOp, Ev_RY n 3 ''full'', Ev_VQE qubitOp ry c1,
               Ev_set_random_seed vqe0 50, Ev_QuantumInstance backend 50 50,
               Ev_algorithm_run vqe (Some qi)] @ new2
            @ [Ev_get_backend ''statevector_simulator'', Ev_COBYLA, Ev_set_options c0 250,
               Ev_QAOA qubitOp c2 3, Ev_set_random_seed qaoa0 50,
               Ev_QuantumInstance backend 50 50, Ev_algorithm_run qaoa (Some qi)] @ new3"
    and "list_all (print_result_event \<lparr>g_num_assets = 4, g_mu = mu, g_sigma = sigma,
           g_q = 1 / 2, g_budget = 2, g_penalty = 4\<rparr>) (new1 @ new2 @ new3)"
proof -
  from assms obtain num_assets mu sigma g qubitOp offset tr3 tr4 tr6 tr7 where
    c3: "cell3 lib [Ev_load_account] = (Inr (num_assets, mu, sigma), tr3)"
    and c4: "cell4 lib num_assets mu sigma tr3 = (Inr (g, qubitOp, offset), tr4)"
    and c6: "cell6 lib g qubitOp tr4 = (Inr (), tr6)"
    and c7: "cell7 lib g qubitOp tr6 = (Inr (), tr7)"
    and c8: "cell8 lib g qubitOp tr7 = (Inr (), tr)"
    unfolding notebook_def cell2_def call_load_account_def
    by (auto simp: bind_Inr_iff call_Inr_iff)
  from c3 obtain d0 d1 where n: "num_assets = 4"
    and dp: "RandomDataProvider lib [''TICKER0'', ''TICKER1'', ''TICKER2'', ''TICKER3'']
           (2016, 1, 1) (2016, 1, 30) = Inr d0"
      "data_run lib d0 = Inr d1"
      "get_period_return_mean_vector lib d1 = Inr mu"
      "get_period_return_covariance_matrix lib d1 = Inr sigma"
    and tr3: "tr3 = [Ev_load_account] @ [Ev_RandomDataProvider [''TICKER0'', ''TICKER1'', ''TICKER2'', ''TICKER3'']
                       (2016, 1, 1) (2016, 1, 30),
                     Ev_data_run d0, Ev_get_period_return_mean_vector d1,
                     Ev_get_period_return_covariance_matrix d1]"
    by (rule cell3_Inr)
  from cell4_Inr[OF c4] have g: "g = \<lparr>g_num_assets = 4, g_mu = mu, g_sigma = sigma,
           g_q = 1 / 2, g_budget = 2, g_penalty = 4\<rparr>"
    and op: "get_operator lib mu sigma (1 / 2) 2 4 = Inr (qubitOp, offset)"
    and tr4: "tr4 = tr3 @ [Ev_get_operator mu sigma (1 / 2) 2 4]"
    by (simp_all add: n py_int_def)
  from c6 obtain ee res1 new1 where
    tr6: "tr6 = tr4 @ [Ev_ExactEigensolver qubitOp 1, Ev_algorithm_run ee None] @ new1"
    and new1: "list_all (print_result_event g) new1"
    by (rule cell6_Inr)
  from c7 obtain backend c0 c1 n ry vqe0 vqe qi res2 new2 where
    l7: "get_backend lib ''statevector_simulator'' = Inr backend" "COBYLA lib = Inr c0"
      "QuantumInstance lib backend 50 50 = Inr qi"
    and tr7: "tr7 = tr6 @ [Ev_get_backend ''statevector_simulator'', Ev_COBYLA, Ev_set_options c0 500,
                     Ev_num_qubits qubitOp, Ev_RY n 3 ''full'', Ev_VQE qubitOp ry c1,
                     Ev_set_random_seed vqe0 50, Ev_QuantumInstance backend 50 50,
                     Ev_algorithm_run vqe (Some qi)] @ new2"
    and new2: "list_all (print_result_event g) new2"
    by (rule cell7_Inr)
  from c8 obtain backend' c0' c2 qaoa0 qaoa qi' res3 new3 where
    l8: "get_backend lib ''statevector_simulator'' = Inr backend'" "COBYLA lib = Inr c0'"
      "QuantumInstance lib backend' 50 50 = Inr qi'"
    and tr8: "tr = tr7 @ [Ev_get_backend ''statevector_simulator'', Ev_COBYLA, Ev_set_options c0' 250,
                     Ev_QAOA qubitOp c2 3, Ev_set_random_seed qaoa0 50,
                     Ev_QuantumInstance backend' 50 50, Ev_algorithm_run qaoa (Some qi')] @ new3"
    and new3: "list_all (print_result_event g) new3"
    by (rule cell8_Inr)
  from l7 l8 have same: "backend' = backend" "c0' = c0" "qi' = qi" by simp_all
  show ?thesis
    by (rule that[where ?d0.0 = d0 and ?d1.0 = d1 and mu = mu and sigma = sigma and qubitOp = qubitOp
          and offset = offset and ee = ee and backend = backend and ?c0.0 = c0 and ?c1.0 = c1
          and n = n and ry = ry and ?vqe0.0 = vqe0 and vqe = vqe and qi = qi and ?c2.0 = c2
          and ?qaoa0.0 = qaoa0 and qaoa = qaoa and ?new1.0 = new1 and ?new2.0 = new2
          and ?new3.0 = new3])
      (use dp op new1 new2 new3 in \<open>simp_all add: tr8 tr7 tr6 tr4 tr3 same g\<close>)
qed

lemma print_result_event_filters:
  assumes "list_all (print_result_event g) new"
  shows "filter is_algorithm_class new = []" "filter is_get_operator new = []"
    "filter is_data_provider new = []"
proof -
  have "\<not> is_algorithm_class ev \<and> \<not> is_get_operator ev \<and> \<not> is_data_provider ev"
    if "print_result_event g ev" for ev :: "'a event"
    using that by (cases ev) simp_all
  with assms show "filter is_algorithm_class new = []" "filter is_get_operator new = []"
    "filter is_data_provider new = []"
    by (auto simp: filter_empty_conv list_all_iff)
qed

lemma print_result_event_portfolio_value:
  "print_result_event g (Ev_portfolio_value x m sg r b p) \<Longrightarrow>
     m = g_mu g \<and> sg = g_sigma g \<and> r = g_q g \<and> b = g_budget g \<and> p = g_penalty g"
  by simp

text \<open>
  Claim C3: in a run of the notebook that completes, \<^verbatim>\<open>get_operator\<close> is called once, and the
  algorithm classes constructed are exactly \<^verbatim>\<open>ExactEigensolver\<close> with \<open>k = 1\<close>,
  \<^verbatim>\<open>VQE\<close> and \<^verbatim>\<open>QAOA\<close>, in this order, each on the operator which that call
  returned.
\<close>

theorem notebook_algorithms:
  assumes "notebook lib [] = (Inr (), tr)"
  shows "\<exists>mu sigma qubitOp offset ry c1 c2.
           filter is_get_operator tr = [Ev_get_operator mu sigma (1 / 2) 2 4] \<and>
           get_operator lib mu sigma (1 / 2) 2 4 = Inr (qubitOp, offset) \<and>
           filter is_algorithm_class tr =
             [Ev_ExactEigensolver qubitOp 1, Ev_VQE qubitOp ry c1, Ev_QAOA qubitOp c2 3]"
proof -
  from assms obtain d0 d1 mu sigma qubitOp offset ee backend c0 c1 n ry vqe0 vqe qi c2 qaoa0
    qaoa new1 new2 new3
    where op: "get_operator lib mu sigma (1 / 2) 2 4 = Inr (qubitOp, offset)"
    and tr: "tr = [Ev_load_account,
               Ev_RandomDataProvider [''TICKER0'', ''TICKER1'', ''TICKER2'', ''TICKER3'']
                 (2016, 1, 1) (2016, 1, 30),
               Ev_data_run d0, Ev_get_period_return_mean_vector d1,
               Ev_get_period_return_covariance_matrix d1,
               Ev_get_operator mu sigma (1 / 2) 2 4,
               Ev_ExactEigensolver qubitOp 1, Ev_algorithm_run ee None] @ new1
            @ [Ev_get_backend ''statevector_simulator'', Ev_COBYLA, Ev_set_options c0 500,
               Ev_num_qubits qubitOp, Ev_RY n 3 ''full'', Ev_VQE qubitOp ry c1,
               Ev_set_random_seed vqe0 50, Ev_QuantumInstance backend 50 50,
               Ev_algorithm_run vqe (Some qi)] @ new2
            @ [Ev_get_backend ''statevector_simulator'', Ev_COBYLA, Ev_set_options c0 250,
               Ev_QAOA qubitOp c2 3, Ev_set_random_seed qaoa0 50,
               Ev_QuantumInstance backend 50 50, Ev_algorithm_run qaoa (Some qi)] @ new3"
    and new: "list_all (print_result_event \<lparr>g_num_assets = 4, g_mu = mu, g_sigma = sigma,
           g_q = 1 / 2, g_budget = 2, g_penalty = 4\<rparr>) (new1 @ new2 @ new3)"
    by (rule notebook_Inr)
  from new have f: "filter is_get_operator (new1 @ new2 @ new3) = []"
    "filter is_algorithm_class (new1 @ new2 @ new3) = []"
    by (rule print_result_event_filters)+
  have "filter is_get_operator tr = [Ev_get_operator mu sigma (1 / 2) 2 4]"
    using f by (simp add: tr)
  moreover have "filter is_algorithm_class tr =
      [Ev_ExactEigensolver qubitOp 1, Ev_VQE qubitOp ry c1, Ev_QAOA qubitOp c2 3]"
    using f by (simp add: tr)
  ultimately show ?thesis using op by blast
qed

lemma print_result_event_member:
  "list_all (print_result_event g) new \<Longrightarrow> Ev_portfolio_value x m sg r b p \<in> set new \<Longrightarrow>
     m = g_mu g \<and> sg = g_sigma g \<and> r = g_q g \<and> b = g_budget g \<and> p = g_penalty g"
  by (auto simp: list_all_iff)

section \<open>The values print_result evaluates\<close>

lemma print_row_Inr:
  assumes "print_row lib g probabilities i tr = (Inr (), tr')"
  shows "\<exists>x y p. index_to_selection (int i) (g_num_assets g) = Inr x \<and>
           tr' = tr @ [Ev_portfolio_value (IntArray x)
                         (g_mu g) (g_sigma g) (g_q g) (g_budget g) (g_penalty g),
                       Ev_print (format_row lib x y p)]"
  using assms unfolding print_row_def call_portfolio_value_def
  by (auto simp: bind_Inr_iff call_Inr_iff lift_Inr_iff print_Inr_iff)

lemma for_each_print_row_Inr:
  assumes "for_each is (print_row lib g probabilities) tr = (Inr (), tr')"
  shows "\<exists>xs new. map (\<lambda>i. index_to_selection (int i) (g_num_assets g)) is = map Inr xs \<and>
           tr' = tr @ new \<and>
           filter is_portfolio_value new =
             map (\<lambda>x. Ev_portfolio_value (IntArray x)
                    (g_mu g) (g_sigma g) (g_q g) (g_budget g) (g_penalty g)) xs"
  using assms
proof (induction "is" arbitrary: tr)
  case Nil
  then show ?case by (simp add: return_Inr_iff)
next
  case (Cons i "is")
  from Cons.prems obtain tr1 where row: "print_row lib g probabilities i tr = (Inr (), tr1)"
    and rest: "for_each is (print_row lib g probabilities) tr1 = (Inr (), tr')"
    by (auto simp: bind_Inr_iff)
  from print_row_Inr[OF row] obtain x y p where
    x: "index_to_selection (int i) (g_num_assets g) = Inr x"
    and tr1: "tr1 = tr @ [Ev_portfolio_value (IntArray x)
                         (g_mu g) (g_sigma g) (g_q g) (g_budget g) (g_penalty g),
                       Ev_print (format_row lib x y p)]"
    by blast
  from Cons.IH[OF rest] obtain xs new where
    xs: "map (\<lambda>i. index_to_selection (int i) (g_num_assets g)) is = map Inr xs"
    and new: "tr' = tr1 @ new"
    and f: "filter is_portfolio_value new =
             map (\<lambda>x. Ev_portfolio_value (IntArray x)
                    (g_mu g) (g_sigma g) (g_q g) (g_budget g) (g_penalty g)) xs"
    by blast
  show ?case
    apply (rule exI[of _ "x # xs"])
    apply (rule exI[of _ "[Ev_portfolio_value (IntArray x)
                         (g_mu g) (g_sigma g) (g_q g) (g_budget g) (g_penalty g),
                       Ev_print (format_row lib x y p)] @ new"])
    apply (simp add: x xs new tr1 f)
    done
qed

lemma print_result_Inr:
  assumes "print_result lib g result tr = (Inr (), tr')"
  obtains new where "tr' = tr @ new" "list_all (print_result_event g) new"
    "evaluates_selections lib g result (filter is_portfolio_value new)"
proof -
  from assms obtain v selection y tr1 where v: "eigvecs_0 result = Inr v"
    and sel: "sample_most_likely lib v = Inr selection"
    and loop: "for_each (rev (argsort (abs_squared v))) (print_row lib g (abs_squared v))
          (tr @ [Ev_sample_most_likely v,
             Ev_portfolio_value (FloatArray selection)
               (g_mu g) (g_sigma g) (g_q g) (g_budget g) (g_penalty g),
             Ev_print (format_optimal lib selection y), Ev_print full_result_line,
             Ev_print header_line, Ev_print rule_line]) = (Inr (), tr')"
    unfolding print_result_def Let_def call_sample_most_likely_def call_portfolio_value_def
    by (auto simp: bind_Inr_iff call_Inr_iff lift_Inr_iff print_Inr_iff)
  from for_each_print_row_Inr[OF loop] obtain xs new where
    xs: "map (\<lambda>i. index_to_selection (int i) (g_num_assets g)) (rev (argsort (abs_squared v)))
           = map Inr xs"
    and tr': "tr' = (tr @ [Ev_sample_most_likely v,
             Ev_portfolio_value (FloatArray selection)
               (g_mu g) (g_sigma g) (g_q g) (g_budget g) (g_penalty g),
             Ev_print (format_optimal lib selection y), Ev_print full_result_line,
             Ev_print header_line, Ev_print rule_line]) @ new"
    and f: "filter is_portfolio_value new =
             map (\<lambda>x. Ev_portfolio_value (IntArray x)
                    (g_mu g) (g_sigma g) (g_q g) (g_budget g) (g_penalty g)) xs"
    by blast
  let ?new = "[Ev_sample_most_likely v,
             Ev_portfolio_value (FloatArray selection)
               (g_mu g) (g_sigma g) (g_q g) (g_budget g) (g_penalty g),
             Ev_print (format_optimal lib selection y), Ev_print full_result_line,
             Ev_print header_line, Ev_print rule_line] @ new"
  have len_ps: "length (abs_squared v) = length v" by (simp add: abs_squared_def)
  have "length (map Inr xs :: (exc + int list) list) = length v"
    unfolding xs[symmetric] by (simp add: length_argsort len_ps)
  then have len: "length xs = length v" by simp
  have set_is: "set (rev (argsort (abs_squared v))) = {0..<length v}"
    by (simp add: set_argsort len_ps)
  have 1: "tr' = tr @ ?new" by (simp add: tr')
  obtain new' where "tr' = tr @ new'" "list_all (print_result_event g) new'"
    using assms by (rule print_result_events)
  with 1 have 2: "list_all (print_result_event g) ?new" by simp
  have 3: "evaluates_selections lib g result (filter is_portfolio_value ?new)"
    unfolding evaluates_selections_def
    apply (rule exI[of _ v], rule exI[of _ selection], rule exI[of _ xs])
    apply (simp add: v sel xs f len set_is del: set_rev)
    done
  from 1 2 3 show ?thesis by (rule that)
qed

lemma cell6_values:
  assumes "cell6 lib g qubitOp tr = (Inr (), tr')"
  obtains ee res new where "algorithm_run lib ee None = Inr res"
    and "tr' = tr @ [Ev_ExactEigensolver qubitOp 1, Ev_algorithm_run ee None] @ new"
    and "list_all (print_result_event g) new"
    and "evaluates_selections lib g res (filter is_portfolio_value new)"
proof -
  from assms obtain ee res where res: "algorithm_run lib ee None = Inr res"
    and pr: "print_result lib g res (tr @ [Ev_ExactEigensolver qubitOp 1, Ev_algorithm_run ee None])
               = (Inr (), tr')"
    unfolding cell6_def call_ExactEigensolver_def call_algorithm_run_def
    by (auto simp: bind_Inr_iff call_Inr_iff)
  from pr obtain new where
    "tr' = (tr @ [Ev_ExactEigensolver qubitOp 1, Ev_algorithm_run ee None]) @ new"
    "list_all (print_result_event g) new"
    "evaluates_selections lib g res (filter is_portfolio_value new)"
    by (rule print_result_Inr)
  with res that show ?thesis by simp
qed

lemma cell7_values:
  assumes "cell7 lib g qubitOp tr = (Inr (), tr')"
  obtains backend c0 c1 n ry vqe0 vqe qi res new where
    "get_backend lib ''statevector_simulator'' = Inr backend"
    and "QuantumInstance lib backend 50 50 = Inr qi"
    and "algorithm_run lib vqe (Some qi) = Inr res"
    and "tr' = tr @ [Ev_get_backend ''statevector_simulator'', Ev_COBYLA, Ev_set_options c0 500,
                     Ev_num_qubits qubitOp, Ev_RY n 3 ''full'', Ev_VQE qubitOp ry c1,
                     Ev_set_random_seed vqe0 50, Ev_QuantumInstance backend 50 50,
                     Ev_algorithm_run vqe (Some qi)] @ new"
    and "list_all (print_result_event g) new"
    and "evaluates_selections lib g res (filter is_portfolio_value new)"
proof -
  from assms obtain backend c0 c1 n ry vqe0 vqe qi res where lib:
    "get_backend lib ''statevector_simulator'' = Inr backend"
    "QuantumInstance lib backend 50 50 = Inr qi"
    "algorithm_run lib vqe (Some qi) = Inr res"
    and pr: "print_result lib g res
       (tr @ [Ev_get_backend ''statevector_simulator'', Ev_COBYLA, Ev_set_options c0 500,
              Ev_num_qubits qubitOp, Ev_RY n 3 ''full'', Ev_VQE qubitOp ry c1,
              Ev_set_random_seed vqe0 50, Ev_QuantumInstance backend 50 50,
              Ev_algorithm_run vqe (Some qi)]) = (Inr (), tr')"
    unfolding cell7_def Let_def call_get_backend_def call_COBYLA_def call_set_options_def
      call_num_qubits_def call_RY_def call_VQE_def call_set_random_seed_def
      call_QuantumInstance_def call_algorithm_run_def
    by (auto simp: bind_Inr_iff call_Inr_iff)
  from pr obtain new where
    "tr' = (tr @ [Ev_get_backend ''statevector_simulator'', Ev_COBYLA, Ev_set_options c0 500,
              Ev_num_qubits qubitOp, Ev_RY n 3 ''full'', Ev_VQE qubitOp ry c1,
              Ev_set_random_seed vqe0 50, Ev_QuantumInstance backend 50 50,
              Ev_algorithm_run vqe (Some qi)]) @ new"
    "list_all (print_result_event g) new"
    "evaluates_selections lib g res (filter is_portfolio_value new)"
    by (rule print_result_Inr)
  with lib that show ?thesis by simp
qed

lemma cell8_values:
  assumes "cell8 lib g qubitOp tr = (Inr (), tr')"
  obtains backend c0 c1 qaoa0 qaoa qi res new where
    "get_backend lib ''statevector_simulator'' = Inr backend"
    and "QuantumInstance lib backend 50 50 = Inr qi"
    and "algorithm_run lib qaoa (Some qi) = Inr res"
    and "tr' = tr @ [Ev_get_backend ''statevector_simulator'', Ev_COBYLA, Ev_set_options c0 250,
                     Ev_QAOA qubitOp c1 3, Ev_set_random_seed qaoa0 50,
                     Ev_QuantumInstance backend 50 50, Ev_algorithm_run qaoa (Some qi)] @ new"
    and "list_all (print_result_event g) new"
    and "evaluates_selections lib g res (filter is_portfolio_value new)"
proof -
  from assms obtain backend c0 c1 qaoa0 qaoa qi res where lib:
    "get_backend lib ''statevector_simulator'' = Inr backend"
    "QuantumInstance lib backend 50 50 = Inr qi"
    "algorithm_run lib qaoa (Some qi) = Inr res"
    and pr: "print_result lib g res
       (tr @ [Ev_get_backend ''statevector_simulator'', Ev_COBYLA, Ev_set_options c0 250,
              Ev_QAOA qubitOp c1 3, Ev_set_random_seed qaoa0 50,
              Ev_QuantumInstance backend 50 50, Ev_algorithm_run qaoa (Some qi)]) = (Inr (), tr')"
    unfolding cell8_def Let_def call_get_backend_def call_COBYLA_def call_set_options_def
      call_QAOA_def call_set_random_seed_def call_QuantumInstance_def call_algorithm_run_def
    by (auto simp: bind_Inr_iff call_Inr_iff)
  from pr obtain new where
    "tr' = (tr @ [Ev_get_backend ''statevector_simulator'', Ev_COBYLA, Ev_set_options c0 250,
              Ev_QAOA qubitOp c1 3, Ev_set_random_seed qaoa0 50,
              Ev_QuantumInstance backend 50 50, Ev_algorithm_run qaoa (Some qi)]) @ new"
    "list_all (print_result_event g) new"
    "evaluates_selections lib g res (filter is_portfolio_value new)"
    by (rule print_result_Inr)
  with lib that show ?thesis by simp
qed

lemma print_result_event_no_run:
  assumes "list_all (print_result_event g) new"
  shows "filter is_algorithm_run new = []"
proof -
  have "\<not> is_algorithm_run ev" if "print_result_event g ev" for ev :: "'a event"
    using that by (cases ev) simp_all
  with assms show ?thesis by (auto simp: filter_empty_conv list_all_iff)
qed

text \<open>
  Claim C4: in a run of the notebook that completes, the operator is built by a single
  call of \<^verbatim>\<open>get_operator\<close> on five arguments (mean vector, covariance matrix, risk
  factor, budget, penalty), and every call of \<^verbatim>\<open>portfolio_value\<close> has the same five
  after its selection. These calls are exactly the ones of the three \<^verbatim>\<open>print_result\<close>:
  for the result of each algorithm run, one call on the selection of
  \<^verbatim>\<open>sample_most_likely\<close> and then one on the selection of every index of the state
  vector, in the order of the table.
\<close>

theorem notebook_same_parameters:
  assumes "notebook lib [] = (Inr (), tr)"
  shows "\<exists>mu sigma.
           filter is_get_operator tr = [Ev_get_operator mu sigma (1 / 2) 2 4] \<and>
           (\<forall>x m sg r b p. Ev_portfolio_value x m sg r b p \<in> set tr \<longrightarrow>
              m = mu \<and> sg = sigma \<and> r = 1 / 2 \<and> b = 2 \<and> p = 4) \<and>
           (\<exists>ee vqe qaoa qi res1 res2 res3 evs1 evs2 evs3.
              filter is_algorithm_run tr =
                [Ev_algorithm_run ee None, Ev_algorithm_run vqe (Some qi),
                 Ev_algorithm_run qaoa (Some qi)] \<and>
              algorithm_run lib ee None = Inr res1 \<and>
              algorithm_run lib vqe (Some qi) = Inr res2 \<and>
              algorithm_run lib qaoa (Some qi) = Inr res3 \<and>
              filter is_portfolio_value tr = evs1 @ evs2 @ evs3 \<and>
              evaluates_selections lib
                \<lparr>g_num_assets = 4, g_mu = mu, g_sigma = sigma, g_q = 1 / 2, g_budget = 2,
                   g_penalty = 4\<rparr> res1 evs1 \<and>
              evaluates_selections lib
                \<lparr>g_num_assets = 4, g_mu = mu, g_sigma = sigma, g_q = 1 / 2, g_budget = 2,
                   g_penalty = 4\<rparr> res2 evs2 \<and>
              evaluates_selections lib
                \<lparr>g_num_assets = 4, g_mu = mu, g_sigma = sigma, g_q = 1 / 2, g_budget = 2,
                   g_penalty = 4\<rparr> res3 evs3)"
proof -
  from assms obtain num_assets mu sigma g qubitOp offset tr3 tr4 tr6 tr7 where
    c3: "cell3 lib [Ev_load_account] = (Inr (num_assets, mu, sigma), tr3)"
    and c4: "cell4 lib num_assets mu sigma tr3 = (Inr (g, qubitOp, offset), tr4)"
    and c6: "cell6 lib g qubitOp tr4 = (Inr (), tr6)"
    and c7: "cell7 lib g qubitOp tr6 = (Inr (), tr7)"
    and c8: "cell8 lib g qubitOp tr7 = (Inr (), tr)"
    unfolding notebook_def cell2_def call_load_account_def
    by (auto simp: bind_Inr_iff call_Inr_iff)
  from c3 obtain d0 d1 where n: "num_assets = 4"
    and tr3: "tr3 = [Ev_load_account] @ [Ev_RandomDataProvider [''TICKER0'', ''TICKER1'', ''TICKER2'', ''TICKER3'']
                       (2016, 1, 1) (2016, 1, 30),
                     Ev_data_run d0, Ev_get_period_return_mean_vector d1,
                     Ev_get_period_return_covariance_matrix d1]"
    by (rule cell3_Inr)
  from cell4_Inr[OF c4] have g: "g = \<lparr>g_num_assets = 4, g_mu = mu, g_sigma = sigma,
           g_q = 1 / 2, g_budget = 2, g_penalty = 4\<rparr>"
    and tr4: "tr4 = tr3 @ [Ev_get_operator mu sigma (1 / 2) 2 4]"
    by (simp_all add: n py_int_def)
  from c6 obtain ee res1 new1 where r1: "algorithm_run lib ee None = Inr res1"
    and tr6: "tr6 = tr4 @ [Ev_ExactEigensolver qubitOp 1, Ev_algorithm_run ee None] @ new1"
    and new1: "list_all (print_result_event g) new1"
    and ev1: "evaluates_selections lib g res1 (filter is_portfolio_value new1)"
    by (rule cell6_values)
  from c7 obtain backend c0 c1 k ry vqe0 vqe qi res2 new2 where
    l7: "get_backend lib ''statevector_simulator'' = Inr backend"
      "QuantumInstance lib backend 50 50 = Inr qi"
    and r2: "algorithm_run lib vqe (Some qi) = Inr res2"
    and tr7: "tr7 = tr6 @ [Ev_get_backend ''statevector_simulator'', Ev_COBYLA, Ev_set_options c0 500,
                     Ev_num_qubits qubitOp, Ev_RY k 3 ''full'', Ev_VQE qubitOp ry c1,
                     Ev_set_random_seed vqe0 50, Ev_QuantumInstance backend 50 50,
                     Ev_algorithm_run vqe (Some qi)] @ new2"
    and new2: "list_all (print_result_event g) new2"
    and ev2: "evaluates_selections lib g res2 (filter is_portfolio_value new2)"
    by (rule cell7_values)
  from c8 obtain backend' c0' c2 qaoa0 qaoa qi' res3 new3 where
    l8: "get_backend lib ''statevector_simulator'' = Inr backend'"
      "QuantumInstance lib backend' 50 50 = Inr qi'"
    and r3: "algorithm_run lib qaoa (Some qi') = Inr res3"
    and tr8: "tr = tr7 @ [Ev_get_backend ''statevector_simulator'', Ev_COBYLA, Ev_set_options c0' 250,
                     Ev_QAOA qubitOp c2 3, Ev_set_random_seed qaoa0 50,
                     Ev_QuantumInstance backend' 50 50, Ev_algorithm_run qaoa (Some qi')] @ new3"
    and new3: "list_all (print_result_event g) new3"
    and ev3: "evaluates_selections lib g res3 (filter is_portfolio_value new3)"
    by (rule cell8_values)
  from l7 l8 have same: "backend' = backend" "qi' = qi" by simp_all
  have tr: "tr = [Ev_load_account,
               Ev_RandomDataProvider [''TICKER0'', ''TICKER1'', ''TICKER2'', ''TICKER3'']
                 (2016, 1, 1) (2016, 1, 30),
               Ev_data_run d0, Ev_get_period_return_mean_vector d1,
               Ev_get_period_return_covariance_matrix d1,
               Ev_get_operator mu sigma (1 / 2) 2 4,
               Ev_ExactEigensolver qubitOp 1, Ev_algorithm_run ee None] @ new1
            @ [Ev_get_backend ''statevector_simulator'', Ev_COBYLA, Ev_set_options c0 500,
               Ev_num_qubits qubitOp, Ev_RY k 3 ''full'', Ev_VQE qubitOp ry c1,
               Ev_set_random_seed vqe0 50, Ev_QuantumInstance backend 50 50,
               Ev_algorithm_run vqe (Some qi)] @ new2
            @ [Ev_get_backend ''statevector_simulator'', Ev_COBYLA, Ev_set_options c0' 250,
               Ev_QAOA qubitOp c2 3, Ev_set_random_seed qaoa0 50,
               Ev_QuantumInstance backend 50 50, Ev_algorithm_run qaoa (Some qi)] @ new3"
    by (simp add: tr8 tr7 tr6 tr4 tr3 same)
  from new1 new2 new3 have new: "list_all (print_result_event g) (new1 @ new2 @ new3)"
    by simp
  have fg: "filter is_get_operator new1 = []" "filter is_get_operator new2 = []"
    "filter is_get_operator new3 = []"
    using new1 new2 new3 by (simp_all add: print_result_event_filters)
  have fr: "filter is_algorithm_run new1 = []" "filter is_algorithm_run new2 = []"
    "filter is_algorithm_run new3 = []"
    using new1 new2 new3 by (simp_all add: print_result_event_no_run)
  have one: "filter is_get_operator tr = [Ev_get_operator mu sigma (1 / 2) 2 4]"
    by (simp add: tr fg)
  have same_params: "m = mu \<and> sg = sigma \<and> r = 1 / 2 \<and> b = 2 \<and> p = 4"
    if "Ev_portfolio_value x m sg r b p \<in> set tr" for x m sg r b p
  proof -
    from that have "Ev_portfolio_value x m sg r b p \<in> set (new1 @ new2 @ new3)"
      by (auto simp: tr)
    with new show ?thesis by (auto simp: g dest: print_result_event_member)
  qed
  have runs: "filter is_algorithm_run tr =
      [Ev_algorithm_run ee None, Ev_algorithm_run vqe (Some qi), Ev_algorithm_run qaoa (Some qi)]"
    by (simp add: tr fr)
  have vals: "filter is_portfolio_value tr =
      filter is_portfolio_value new1 @ filter is_portfolio_value new2
        @ filter is_portfolio_value new3"
    by (simp add: tr)
  from one same_params runs r1 r2 r3 vals ev1 ev2 ev3 show ?thesis
    unfolding g same by blast
qed

section \<open>The data and the constants of the problem\<close>

text \<open>
  Claim C5: in a run of the notebook that completes, the only data-provider calls are the
  construction of a \<^verbatim>\<open>RandomDataProvider\<close> over the four tickers, its \<^verbatim>\<open>run\<close>, and
  its mean-vector and covariance-matrix methods, and what these two return is what
  \<^verbatim>\<open>get_operator\<close> is called on.
\<close>

theorem notebook_data_source:
  assumes "notebook lib [] = (Inr (), tr)"
  shows "\<exists>d0 d1 mu sigma.
           RandomDataProvider lib [''TICKER0'', ''TICKER1'', ''TICKER2'', ''TICKER3'']
             (2016, 1, 1) (2016, 1, 30) = Inr d0 \<and>
           data_run lib d0 = Inr d1 \<and>
           get_period_return_mean_vector lib d1 = Inr mu \<and>
           get_period_return_covariance_matrix lib d1 = Inr sigma \<and>
           filter is_data_provider tr =
             [Ev_RandomDataProvider [''TICKER0'', ''TICKER1'', ''TICKER2'', ''TICKER3'']
                (2016, 1, 1) (2016, 1, 30),
              Ev_data_run d0, Ev_get_period_return_mean_vector d1,
              Ev_get_period_return_covariance_matrix d1] \<and>
           filter is_get_operator tr = [Ev_get_operator mu sigma (1 / 2) 2 4]"
proof -
  from assms obtain d0 d1 mu sigma qubitOp offset ee backend c0 c1 n ry vqe0 vqe qi c2 qaoa0
    qaoa new1 new2 new3
    where dp: "RandomDataProvider lib [''TICKER0'', ''TICKER1'', ''TICKER2'', ''TICKER3'']
           (2016, 1, 1) (2016, 1, 30) = Inr d0"
      "data_run lib d0 = Inr d1"
      "get_period_return_mean_vector lib d1 = Inr mu"
      "get_period_return_covariance_matrix lib d1 = Inr sigma"
    and tr: "tr = [Ev_load_account,
               Ev_RandomDataProvider [''TICKER0'', ''TICKER1'', ''TICKER2'', ''TICKER3'']
                 (2016, 1, 1) (2016, 1, 30),
               Ev_data_run d0, Ev_get_period_return_mean_vector d1,
               Ev_get_period_return_covariance_matrix d1,
               Ev_get_operator mu sigma (1 / 2) 2 4,
               Ev_ExactEigensolver qubitOp 1, Ev_algorithm_run ee None] @ new1
            @ [Ev_get_backend ''statevector_simulator'', Ev_COBYLA, Ev_set_options c0 500,
               Ev_num_qubits qubitOp, Ev_RY n 3 ''full'', Ev_VQE qubitOp ry c1,
               Ev_set_random_seed vqe0 50, Ev_QuantumInstance backend 50 50,
               Ev_algorithm_run vqe (Some qi)] @ new2
            @ [Ev_get_backend ''statevector_simulator'', Ev_COBYLA, Ev_set_options c0 250,
               Ev_QAOA qubitOp c2 3, Ev_set_random_seed qaoa0 50,
               Ev_QuantumInstance backend 50 50, Ev_algorithm_run qaoa (Some qi)] @ new3"
    and new: "list_all (print_result_event \<lparr>g_num_assets = 4, g_mu = mu, g_sigma = sigma,
           g_q = 1 / 2, g_budget = 2, g_penalty = 4\<rparr>) (new1 @ new2 @ new3)"
    by (rule notebook_Inr)
  from new have f: "filter is_get_operator (new1 @ new2 @ new3) = []"
    "filter is_data_provider (new1 @ new2 @ new3) = []"
    by (rule print_result_event_filters)+
  have "filter is_get_operator tr = [Ev_get_operator mu sigma (1 / 2) 2 4]"
    using f by (simp add: tr)
  moreover have "filter is_data_provider tr =
             [Ev_RandomDataProvider [''TICKER0'', ''TICKER1'', ''TICKER2'', ''TICKER3'']
                (2016, 1, 1) (2016, 1, 30),
              Ev_data_run d0, Ev_get_period_return_mean_vector d1,
              Ev_get_period_return_covariance_matrix d1]"
    using f by (simp add: tr)
  ultimately show ?thesis using dp by blast
qed

text \<open>
  Claim C9: the budget \<^verbatim>\<open>int(num_assets / 2)\<close> is 2 for the notebook's four assets and
  the penalty is 4, the number of assets; in a run that completes these are the budget and
  penalty of the one call of \<^verbatim>\<open>get_operator\<close> and of every call of
  \<^verbatim>\<open>portfolio_value\<close>.
\<close>

theorem notebook_budget_penalty:
  assumes "notebook lib [] = (Inr (), tr)"
  shows "py_int (of_int 4 / 2) = 2 \<and>
         (\<exists>mu sigma. filter is_get_operator tr =
            [Ev_get_operator mu sigma (1 / 2) (py_int (of_int 4 / 2)) 4]) \<and>
         (\<forall>x m sg r b p. Ev_portfolio_value x m sg r b p \<in> set tr \<longrightarrow> b = 2 \<and> p = 4)"
proof -
  from assms obtain d0 d1 mu sigma qubitOp offset ee backend c0 c1 n ry vqe0 vqe qi c2 qaoa0
    qaoa new1 new2 new3
    where tr: "tr = [Ev_load_account,
               Ev_RandomDataProvider [''TICKER0'', ''TICKER1'', ''TICKER2'', ''TICKER3'']
                 (2016, 1, 1) (2016, 1, 30),
               Ev_data_run d0, Ev_get_period_return_mean_vector d1,
               Ev_get_period_return_covariance_matrix d1,
               Ev_get_operator mu sigma (1 / 2) 2 4,
               Ev_ExactEigensolver qubitOp 1, Ev_algorithm_run ee None] @ new1
            @ [Ev_get_backend ''statevector_simulator'', Ev_COBYLA, Ev_set_options c0 500,
               Ev_num_qubits qubitOp, Ev_RY n 3 ''full'', Ev_VQE qubitOp ry c1,
               Ev_set_random_seed vqe0 50, Ev_QuantumInstance backend 50 50,
               Ev_algorithm_run vqe (Some qi)] @ new2
            @ [Ev_get_backend ''statevector_simulator'', Ev_COBYLA, Ev_set_options c0 250,
               Ev_QAOA qubitOp c2 3, Ev_set_random_seed qaoa0 50,
               Ev_QuantumInstance backend 50 50, Ev_algorithm_run qaoa (Some qi)] @ new3"
    and new: "list_all (print_result_event \<lparr>g_num_assets = 4, g_mu = mu, g_sigma = sigma,
           g_q = 1 / 2, g_budget = 2, g_penalty = 4\<rparr>) (new1 @ new2 @ new3)"
    by (rule notebook_Inr)
  have b: "py_int (of_int 4 / 2) = 2" by (simp add: py_int_def)
  from new have "filter is_get_operator (new1 @ new2 @ new3) = []"
    by (rule print_result_event_filters)
  then have one: "filter is_get_operator tr =
      [Ev_get_operator mu sigma (1 / 2) (py_int (of_int 4 / 2)) 4]"
    by (simp add: tr py_int_def)
  have "b = 2 \<and> p = 4" if "Ev_portfolio_value x m sg r b p \<in> set tr" for x m sg r b p
  proof -
    from that have "Ev_portfolio_value x m sg r b p \<in> set (new1 @ new2 @ new3)"
      by (auto simp: tr)
    with new show ?thesis by (auto dest: print_result_event_member)
  qed
  with b one show ?thesis by blast
qed

section \<open>No exception handler\<close>

lemma no_handlerI:
  "(\<And>tr r tr'. p tr = (r, tr') \<Longrightarrow> \<exists>new. tr' = tr @ new \<and> propagates lib r new)
     \<Longrightarrow> no_handler lib p"
  by (simp add: no_handler_def)

lemma no_handlerD:
  "no_handler lib p \<Longrightarrow> p tr = (r, tr') \<Longrightarrow> \<exists>new. tr' = tr @ new \<and> propagates lib r new"
  by (simp add: no_handler_def)

lemma propagates_Nil: "propagates lib r []"
  by (simp add: propagates_def)

lemma propagates_Inr: "propagates lib (Inr a) new \<Longrightarrow> \<forall>ev\<in>set new. raised lib ev = None"
  by (auto simp: propagates_def in_set_conv_nth)

lemma propagates_append:
  assumes "\<forall>ev\<in>set new1. raised lib ev = None" and "propagates lib r new2"
  shows "propagates lib r (new1 @ new2)"
  unfolding propagates_def
proof (intro allI impI)
  fix k e assume k: "k < length (new1 @ new2)" and e: "raised lib ((new1 @ new2) ! k) = Some e"
  show "r = Inl e \<and> Suc k = length (new1 @ new2)"
  proof (cases "k < length new1")
    case True
    with assms(1) have "raised lib (new1 ! k) = None" by simp
    with True e show ?thesis by (simp add: nth_append)
  next
    case False
    with k e have "k - length new1 < length new2"
      "raised lib (new2 ! (k - length new1)) = Some e"
      by (simp_all add: nth_append)
    with assms(2) have "r = Inl e \<and> Suc (k - length new1) = length new2"
      unfolding propagates_def by blast
    with False show ?thesis by auto
  qed
qed

lemma no_handler_return: "no_handler lib (return a)"
  by (simp add: no_handler_def return_def propagates_Nil)

lemma no_handler_lift: "no_handler lib (lift r)"
  by (simp add: no_handler_def lift_def propagates_Nil)

lemma no_handler_call: "raised lib ev = exc_of r \<Longrightarrow> no_handler lib (call ev r)"
  by (auto simp: no_handler_def call_def propagates_def exc_of_def split: sum.splits)

lemma no_handler_print: "no_handler lib (print s)"
  by (simp add: no_handler_def print_def propagates_def)

lemma no_handler_bind:
  assumes "no_handler lib p" and "\<And>a. no_handler lib (f a)"
  shows "no_handler lib (bind p f)"
proof (rule no_handlerI)
  fix tr r tr' assume run: "bind p f tr = (r, tr')"
  obtain r1 tr1 where p: "p tr = (r1, tr1)" by (cases "p tr")
  from no_handlerD[OF assms(1) p] obtain new1 where
    new1: "tr1 = tr @ new1" "propagates lib r1 new1"
    by blast
  show "\<exists>new. tr' = tr @ new \<and> propagates lib r new"
  proof (cases r1)
    case (Inl e)
    with run p have "tr' = tr1" "r = Inl e" by (simp_all add: bind_def)
    with new1 Inl show ?thesis by (auto simp: propagates_def)
  next
    case (Inr a)
    with run p have "f a tr1 = (r, tr')" by (simp add: bind_def)
    from no_handlerD[OF assms(2) this] obtain new2 where
      new2: "tr' = tr1 @ new2" "propagates lib r new2"
      by blast
    from new1(2) Inr have "\<forall>ev\<in>set new1. raised lib ev = None"
      by (simp add: propagates_Inr)
    then have "propagates lib r (new1 @ new2)" using new2(2) by (rule propagates_append)
    with new1(1) new2(1) show ?thesis by simp
  qed
qed

lemma no_handler_for_each:
  "(\<And>a. no_handler lib (body a)) \<Longrightarrow> no_handler lib (for_each as body)"
  by (induction as) (simp_all add: no_handler_return no_handler_bind)

lemmas no_handler_calls =
  call_load_account_def call_RandomDataProvider_def call_data_run_def
  call_get_period_return_mean_vector_def call_get_period_return_covariance_matrix_def
  call_get_operator_def call_portfolio_value_def call_sample_most_likely_def
  call_ExactEigensolver_def call_algorithm_run_def call_get_backend_def call_COBYLA_def
  call_set_options_def call_num_qubits_def call_RY_def call_VQE_def call_set_random_seed_def
  call_QuantumInstance_def call_QAOA_def

lemmas no_handler_rules =
  no_handler_bind no_handler_lift no_handler_call no_handler_print no_handler_return

lemma no_handler_print_row: "no_handler lib (print_row lib g probabilities i)"
  unfolding print_row_def no_handler_calls
  by (intro no_handler_rules) simp_all

lemma no_handler_print_result: "no_handler lib (print_result lib g result)"
  unfolding print_result_def Let_def no_handler_calls
  by (intro no_handler_rules no_handler_for_each no_handler_print_row) simp_all

lemma no_handler_cell2: "no_handler lib (cell2 lib)"
  unfolding cell2_def no_handler_calls by (intro no_handler_rules) simp_all

lemma no_handler_cell3: "no_handler lib (cell3 lib)"
  unfolding cell3_def Let_def no_handler_calls by (intro no_handler_rules) simp_all

lemma no_handler_cell4: "no_handler lib (cell4 lib num_assets mu sigma)"
  unfolding cell4_def Let_def no_handler_calls split_def
  by (intro no_handler_rules) simp_all

lemma no_handler_cell6: "no_handler lib (cell6 lib g qubitOp)"
  unfolding cell6_def no_handler_calls
  by (intro no_handler_rules no_handler_print_result) simp_all

lemma no_handler_cell7: "no_handler lib (cell7 lib g qubitOp)"
  unfolding cell7_def Let_def no_handler_calls
  by (intro no_handler_rules no_handler_print_result) simp_all

lemma no_handler_cell8: "no_handler lib (cell8 lib g qubitOp)"
  unfolding cell8_def Let_def no_handler_calls
  by (intro no_handler_rules no_handler_print_result) simp_all

lemma no_handler_notebook: "no_handler lib (notebook lib)"
  unfolding notebook_def split_def
  by (intro no_handler_bind no_handler_cell2 no_handler_cell3 no_handler_cell4
      no_handler_cell6 no_handler_cell7 no_handler_cell8)

text \<open>
  Claim C8: nothing in the notebook handles an exception. In every run of the notebook, of
  \<^verbatim>\<open>print_result\<close> or of a single cell, with any library and however it ends, the trace
  so far is only extended, and a library call that raises is the last event of the run (no
  later call, no later print) and its exception is the outcome of the run.
\<close>

theorem notebook_no_handler:
  "no_handler lib (notebook lib) \<and> no_handler lib (print_result lib g result) \<and>
   no_handler lib (cell2 lib) \<and> no_handler lib (cell3 lib) \<and>
   no_handler lib (cell4 lib num_assets mu sigma) \<and> no_handler lib (cell6 lib g qubitOp) \<and>
   no_handler lib (cell7 lib g qubitOp) \<and> no_handler lib (cell8 lib g qubitOp)"
  by (intro conjI no_handler_notebook no_handler_print_result no_handler_cell2
      no_handler_cell3 no_handler_cell4 no_handler_cell6 no_handler_cell7 no_handler_cell8)

section \<open>Runs on the stand-in library\<close>

lemma demo_eigvecs_0: "eigvecs_0 demo_result = Inr demo_vec"
  by (simp add: eigvecs_0_def dict_getitem_def getitem_def demo_result_def)

lemma demo_print_result:
  "print_result demo_library g demo_result tr =
     (Inr (), tr @ [Ev_sample_most_likely demo_vec,
        Ev_portfolio_value (FloatArray [0, 0, 1, 1]) (g_mu g) (g_sigma g) (g_q g) (g_budget g) (g_penalty g),
        Ev_print (format_optimal demo_library [0, 0, 1, 1]
          (demo_portfolio_value (FloatArray [0, 0, 1, 1]) (g_mu g) (g_sigma g) (g_q g) (g_budget g) (g_penalty g))),
        Ev_print full_result_line,
        Ev_print header_line, Ev_print rule_line]
       @ concat (map (row_events demo_library g
            (\<lambda>i. projr (index_to_selection (int i) (g_num_assets g)))
            (\<lambda>x. demo_portfolio_value (IntArray x) (g_mu g) (g_sigma g) (g_q g) (g_budget g) (g_penalty g))
            (abs_squared demo_vec)) (rev (argsort (abs_squared demo_vec)))))"
proof -
  define x_of where "x_of i = projr (index_to_selection (int i) (g_num_assets g))" for i
  have x_of: "index_to_selection (int i) (g_num_assets g) = Inr (x_of i)" for i
    by (simp add: x_of_def index_to_selection_eq)
  show "print_result demo_library g demo_result tr =
     (Inr (), tr @ [Ev_sample_most_likely demo_vec,
        Ev_portfolio_value (FloatArray [0, 0, 1, 1]) (g_mu g) (g_sigma g) (g_q g) (g_budget g) (g_penalty g),
        Ev_print (format_optimal demo_library [0, 0, 1, 1]
          (demo_portfolio_value (FloatArray [0, 0, 1, 1]) (g_mu g) (g_sigma g) (g_q g) (g_budget g) (g_penalty g))),
        Ev_print full_result_line,
        Ev_print header_line, Ev_print rule_line]
       @ concat (map (row_events demo_library g
            (\<lambda>i. projr (index_to_selection (int i) (g_num_assets g)))
            (\<lambda>x. demo_portfolio_value (IntArray x) (g_mu g) (g_sigma g) (g_q g) (g_budget g) (g_penalty g))
            (abs_squared demo_vec)) (rev (argsort (abs_squared demo_vec)))))"
    unfolding x_of_def[symmetric, abs_def]
    by (rule print_result_run[OF demo_eigvecs_0 _ _ x_of]) (simp_all add: demo_library_def)
qed

lemma snd_bind:
  "snd (bind p f tr) = (case fst (p tr) of Inl e \<Rightarrow> snd (p tr) | Inr a \<Rightarrow> snd (f a (snd (p tr))))"
  by (simp add: bind_def split: prod.splits sum.splits)

lemma fst_bind:
  "fst (bind p f tr) = (case fst (p tr) of Inl e \<Rightarrow> Inl e | Inr a \<Rightarrow> fst (f a (snd (p tr))))"
  by (simp add: bind_def split: prod.splits sum.splits)

lemma demo_library_fields:
  "load_account demo_library = Inr 0"
  "RandomDataProvider demo_library tickers start end = Inr 1"
  "data_run demo_library d = Inr (d + 1)"
  "get_period_return_mean_vector demo_library d = Inr [1 / 100, 2 / 100, 3 / 100, 4 / 100]"
  "get_period_return_covariance_matrix demo_library d =
     Inr [[1, 0, 0, 0], [0, 1, 0, 0], [0, 0, 1, 0], [0, 0, 0, 1]]"
  "get_operator demo_library m sg r b p = Inr (3, 0)"
  "ExactEigensolver demo_library operator k = Inr 4"
  "algorithm_run demo_library a qi = Inr demo_result"
  "get_backend demo_library name = Inr 5"
  "COBYLA demo_library = Inr 6"
  "set_options demo_library c maxiter = Inr (c + 1)"
  "num_qubits demo_library operator = Inr 4"
  "RY demo_library n depth entanglement = Inr 8"
  "VQE demo_library operator var_form optimizer = Inr 9"
  "set_random_seed demo_library a seed = Inr (a + 1)"
  "QuantumInstance demo_library backend s1 s2 = Inr 11"
  "QAOA demo_library operator optimizer p = Inr 12"
  by (simp_all add: demo_library_def)

lemma demo_notebook_runs: "notebook demo_library [] = (Inr (), snd (notebook demo_library []))"
proof -
  have "fst (notebook demo_library []) = Inr ()"
    unfolding notebook_def cell2_def cell3_def cell4_def cell6_def cell7_def cell8_def Let_def
      no_handler_calls
    by (simp add: fst_bind call_def return_def demo_library_fields demo_print_result)
  then show ?thesis by (simp add: prod_eq_iff)
qed

theorem notebook_algorithms_witness:
  "\<exists>mu sigma qubitOp offset ry c1 c2.
     filter is_get_operator (snd (notebook demo_library [])) =
       [Ev_get_operator mu sigma (1 / 2) 2 4] \<and>
     get_operator demo_library mu sigma (1 / 2) 2 4 = Inr (qubitOp, offset) \<and>
     filter is_algorithm_class (snd (notebook demo_library [])) =
       [Ev_ExactEigensolver qubitOp 1, Ev_VQE qubitOp ry c1, Ev_QAOA qubitOp c2 3]"
  by (rule notebook_algorithms[OF demo_notebook_runs])

lemma demo_portfolio_value_event:
  "Ev_portfolio_value (FloatArray [0, 0, 1, 1]) [1 / 100, 2 / 100, 3 / 100, 4 / 100]
     [[1, 0, 0, 0], [0, 1, 0, 0], [0, 0, 1, 0], [0, 0, 0, 1]] (1 / 2) 2 4
   \<in> set (snd (notebook demo_library []))"
  unfolding notebook_def cell2_def cell3_def cell4_def cell6_def cell7_def cell8_def Let_def
    no_handler_calls
  by (simp add: fst_bind snd_bind call_def return_def demo_library_fields demo_print_result
      py_int_def)

lemma demo_values_length:
  assumes "evaluates_selections lib g demo_result evs"
  shows "length evs = 17"
proof -
  from assms obtain v selection xs where "eigvecs_0 demo_result = Inr v"
    and len: "length xs = length v"
    and evs: "evs = Ev_portfolio_value (FloatArray selection)
                (g_mu g) (g_sigma g) (g_q g) (g_budget g) (g_penalty g)
              # map (\<lambda>x. Ev_portfolio_value (IntArray x)
                       (g_mu g) (g_sigma g) (g_q g) (g_budget g) (g_penalty g)) xs"
    unfolding evaluates_selections_def by blast
  then have "v = demo_vec" by (simp add: demo_eigvecs_0)
  with len have "length xs = 16" by (simp add: demo_vec_def)
  with evs show ?thesis by simp
qed

theorem notebook_same_parameters_witness:
  "(\<exists>mu sigma.
     filter is_get_operator (snd (notebook demo_library [])) =
       [Ev_get_operator mu sigma (1 / 2) 2 4] \<and>
     Ev_portfolio_value (FloatArray [0, 0, 1, 1]) mu sigma (1 / 2) 2 4
       \<in> set (snd (notebook demo_library []))) \<and>
   length (filter is_portfolio_value (snd (notebook demo_library []))) = 51"
proof -
  from notebook_same_parameters[OF demo_notebook_runs]
  obtain mu sigma ee vqe qaoa qi res1 res2 res3 evs1 evs2 evs3 where
    one: "filter is_get_operator (snd (notebook demo_library [])) =
       [Ev_get_operator mu sigma (1 / 2) 2 4]"
    and same: "\<forall>x m sg r b p.
       Ev_portfolio_value x m sg r b p \<in> set (snd (notebook demo_library [])) \<longrightarrow>
       m = mu \<and> sg = sigma \<and> r = 1 / 2 \<and> b = 2 \<and> p = 4"
    and res: "algorithm_run demo_library ee None = Inr res1"
      "algorithm_run demo_library vqe (Some qi) = Inr res2"
      "algorithm_run demo_library qaoa (Some qi) = Inr res3"
    and vals: "filter is_portfolio_value (snd (notebook demo_library [])) = evs1 @ evs2 @ evs3"
    and ev: "evaluates_selections demo_library
                \<lparr>g_num_assets = 4, g_mu = mu, g_sigma = sigma, g_q = 1 / 2, g_budget = 2,
                   g_penalty = 4\<rparr> res1 evs1"
      "evaluates_selections demo_library
                \<lparr>g_num_assets = 4, g_mu = mu, g_sigma = sigma, g_q = 1 / 2, g_budget = 2,
                   g_penalty = 4\<rparr> res2 evs2"
      "evaluates_selections demo_library
                \<lparr>g_num_assets = 4, g_mu = mu, g_sigma = sigma, g_q = 1 / 2, g_budget = 2,
                   g_penalty = 4\<rparr> res3 evs3"
    by blast
  from res have "res1 = demo_result" "res2 = demo_result" "res3 = demo_result"
    by (simp_all add: demo_library_fields)
  with ev have "length evs1 = 17" "length evs2 = 17" "length evs3 = 17"
    by (auto dest: demo_values_length)
  with vals have "length (filter is_portfolio_value (snd (notebook demo_library []))) = 51"
    by simp
  moreover from same demo_portfolio_value_event
  have "Ev_portfolio_value (FloatArray [0, 0, 1, 1]) mu sigma (1 / 2) 2 4
       \<in> set (snd (notebook demo_library []))"
    by blast
  ultimately show ?thesis using one by blast
qed

theorem notebook_data_source_witness:
  "\<exists>d0 d1 mu sigma.
     RandomDataProvider demo_library [''TICKER0'', ''TICKER1'', ''TICKER2'', ''TICKER3'']
       (2016, 1, 1) (2016, 1, 30) = Inr d0 \<and>
     data_run demo_library d0 = Inr d1 \<and>
     get_period_return_mean_vector demo_library d1 = Inr mu \<and>
     get_period_return_covariance_matrix demo_library d1 = Inr sigma \<and>
     filter is_data_provider (snd (notebook demo_library [])) =
       [Ev_RandomDataProvider [''TICKER0'', ''TICKER1'', ''TICKER2'', ''TICKER3'']
          (2016, 1, 1) (2016, 1, 30),
        Ev_data_run d0, Ev_get_period_return_mean_vector d1,
        Ev_get_period_return_covariance_matrix d1] \<and>
     filter is_get_operator (snd (notebook demo_library [])) =
       [Ev_get_operator mu sigma (1 / 2) 2 4]"
  by (rule notebook_data_source[OF demo_notebook_runs])

theorem notebook_budget_penalty_witness:
  "py_int (of_int 4 / 2) = 2 \<and>
   (\<exists>mu sigma. filter is_get_operator (snd (notebook demo_library [])) =
      [Ev_get_operator mu sigma (1 / 2) (py_int (of_int 4 / 2)) 4]) \<and>
   (\<exists>x m sg r. Ev_portfolio_value x m sg r 2 4 \<in> set (snd (notebook demo_library [])))"
  using notebook_budget_penalty[OF demo_notebook_runs] demo_portfolio_value_event
  by blast



lemma failing_library_fields:
  "load_account failing_library = Inr 0"
  "RandomDataProvider failing_library tickers start end = Inr 1"
  "data_run failing_library d = Inr (d + 1)"
  "get_period_return_mean_vector failing_library d = Inr [1 / 100, 2 / 100, 3 / 100, 4 / 100]"
  "get_period_return_covariance_matrix failing_library d =
     Inr [[1, 0, 0, 0], [0, 1, 0, 0], [0, 0, 1, 0], [0, 0, 0, 1]]"
  "get_operator failing_library m sg r b p = Inl (LibraryError ''no operator'')"
  by (simp_all add: failing_library_def demo_library_def)

lemma failing_trace:
  "snd (notebook failing_library []) =
     [Ev_load_account,
      Ev_RandomDataProvider [''TICKER0'', ''TICKER1'', ''TICKER2'', ''TICKER3'']
        (2016, 1, 1) (2016, 1, 30),
      Ev_data_run 1, Ev_get_period_return_mean_vector 2,
      Ev_get_period_return_covariance_matrix 2,
      Ev_get_operator [1 / 100, 2 / 100, 3 / 100, 4 / 100]
        [[1, 0, 0, 0], [0, 1, 0, 0], [0, 0, 1, 0], [0, 0, 0, 1]] (1 / 2) 2 4]"
  unfolding notebook_def cell2_def cell3_def cell4_def Let_def stocks_4 no_handler_calls
  by (simp add: fst_bind snd_bind call_def return_def failing_library_fields py_int_def)

theorem notebook_no_handler_witness:
  "raised failing_library (snd (notebook failing_library []) ! 5)
     = Some (LibraryError ''no operator'') \<and>
   fst (notebook failing_library []) = Inl (LibraryError ''no operator'') \<and>
   length (snd (notebook failing_library [])) = 6"
proof -
  have r: "raised failing_library (snd (notebook failing_library []) ! 5)
     = Some (LibraryError ''no operator'')"
    by (simp add: failing_trace failing_library_fields exc_of_def)
  have "no_handler failing_library (notebook failing_library)"
    using notebook_no_handler[of failing_library] by blast
  moreover have "notebook failing_library [] =
      (fst (notebook failing_library []), snd (notebook failing_library []))"
    by simp
  ultimately obtain new where new: "snd (notebook failing_library []) = [] @ new"
    and p: "propagates failing_library (fst (notebook failing_library [])) new"
    unfolding no_handler_def by blast
  from new have new_eq: "new = snd (notebook failing_library [])" by simp
  then have len: "length new = 6" by (simp add: failing_trace)
  then have k: "5 < length new" by simp
  from new_eq r have "raised failing_library (new ! 5) = Some (LibraryError ''no operator'')"
    by simp
  with p k have "fst (notebook failing_library []) = Inl (LibraryError ''no operator'')"
    unfolding propagates_def by blast
  with r new_eq len show ?thesis by simp
qed

end
